theory Spec2Isabelle
  imports Complex_Main "HOL-Library.Sublist" "HOL-Library.Multiset"
begin

section \<open>Python text operations\<close>

text \<open>
  A Python \<^verbatim>\<open>str\<close> is a \<^typ>\<open>string\<close>: each \<^typ>\<open>char\<close> stands for the code point
  of the same number, so the model covers text whose code points are below 256. In the
  model of app.py a journal file is its text: the UTF-8 layer of the text-mode file
  (\<^verbatim>\<open>errors="ignore"\<close>) is the identity on ASCII journals, where offsets count
  characters. The model of EDAT.py reads bytes and decodes the bytes of each read.
\<close>

abbreviation LF :: char where "LF \<equiv> CHR 0x0A"
abbreviation CR :: char where "CR \<equiv> CHR 0x0D"

definition isspace :: "char \<Rightarrow> bool" where
  \<comment> \<open>\<^verbatim>\<open>str.isspace\<close> and the \<^verbatim>\<open>\s\<close> of \<^verbatim>\<open>re\<close>, below code point 256\<close>
  "isspace c = (c \<in> set [CHR 0x09, LF, CHR 0x0B, CHR 0x0C, CR, CHR 0x1C, CHR 0x1D,
                           CHR 0x1E, CHR 0x1F, CHR 0x20, CHR 0x85, CHR 0xA0])"

definition strip :: "string \<Rightarrow> string" where
  "strip s = rev (dropWhile isspace (rev (dropWhile isspace s)))"

definition lower_char :: "char \<Rightarrow> char" where
  "lower_char c =
     (let n = (of_char c :: nat)
      in if (65 \<le> n \<and> n \<le> 90) \<or> (192 \<le> n \<and> n \<le> 222 \<and> n \<noteq> 215)
         then char_of (n + 32) else c)"

definition lower :: "string \<Rightarrow> string" where
  "lower s = map lower_char s"

primrec contains :: "string \<Rightarrow> string \<Rightarrow> bool" where
  \<comment> \<open>\<^verbatim>\<open>sub in s\<close>\<close>
  "contains sub [] = (sub = [])"
| "contains sub (c # cs) = (prefix sub (c # cs) \<or> contains sub cs)"

definition line_boundary :: "char \<Rightarrow> bool" where
  \<comment> \<open>the characters at which \<^verbatim>\<open>str.splitlines\<close> breaks a line\<close>
  "line_boundary c = (c \<in> set [LF, CHR 0x0B, CHR 0x0C, CR, CHR 0x1C, CHR 0x1D, CHR 0x1E,
                                 CHR 0x85])"

fun splitlines :: "string \<Rightarrow> string list" where
  \<comment> \<open>\<^verbatim>\<open>str.splitlines()\<close>: the lines without their terminators; CR LF is one terminator\<close>
  "splitlines [] = []"
| "splitlines (c # cs) =
     (if c = CR then
        (case cs of
           [] \<Rightarrow> [[]]
         | d # ds \<Rightarrow> if d = LF then [] # splitlines ds else [] # splitlines cs)
      else if line_boundary c then [] # splitlines cs
      else (case splitlines cs of [] \<Rightarrow> [[c]] | l # ls \<Rightarrow> (c # l) # ls))"

fun readlines :: "string \<Rightarrow> string list" where
  \<comment> \<open>\<^verbatim>\<open>f.readlines()\<close> of a text file opened with universal newlines: CR, LF and CR LF
      end a line and are read as LF, which stays on the line\<close>
  "readlines [] = []"
| "readlines (c # cs) =
     (if c = CR then
        (case cs of
           [] \<Rightarrow> [[LF]]
         | d # ds \<Rightarrow> if d = LF then [LF] # readlines ds else [LF] # readlines cs)
      else if c = LF then [LF] # readlines cs
      else (case readlines cs of [] \<Rightarrow> [[c]] | l # ls \<Rightarrow> (c # l) # ls))"

definition digit_char :: "nat \<Rightarrow> char" where
  "digit_char d = char_of (48 + d)"

fun str_nat :: "nat \<Rightarrow> string" where
  "str_nat n = (if n < 10 then [digit_char n] else str_nat (n div 10) @ [digit_char (n mod 10)])"

declare str_nat.simps [simp del]

definition str_int :: "int \<Rightarrow> string" where
  \<comment> \<open>\<^verbatim>\<open>str(i)\<close>, the text an f-string puts for an \<^verbatim>\<open>int\<close>\<close>
  "str_int i = (if i < 0 then CHR ''-'' # str_nat (nat (- i)) else str_nat (nat i))"

definition py_trunc :: "rat \<Rightarrow> int" where
  \<comment> \<open>\<^verbatim>\<open>int(x)\<close> of a float: towards zero\<close>
  "py_trunc x = (if 0 \<le> x then \<lfloor>x\<rfloor> else \<lceil>x\<rceil>)"

definition py_round :: "rat \<Rightarrow> int" where
  \<comment> \<open>\<^verbatim>\<open>round(x)\<close> of a float: to the nearest integer, a tie to the even one\<close>
  "py_round x =
     (let f = \<lfloor>x\<rfloor>; d = x - of_int f
      in if d < 1 / 2 then f else if 1 / 2 < d then f + 1 else if even f then f else f + 1)"

section \<open>Decoded JSON\<close>

text \<open>
  A Python float: the rational it denotes, or one of the three values that are not
  finite. \<^verbatim>\<open>json.loads\<close> returns \<^verbatim>\<open>inf\<close> for \<^verbatim>\<open>1e999\<close> and for \<^verbatim>\<open>Infinity\<close>, \<^verbatim>\<open>-inf\<close> for
  \<^verbatim>\<open>-Infinity\<close> and \<^verbatim>\<open>nan\<close> for \<^verbatim>\<open>NaN\<close>. The code only compares, truncates and rounds
  floats, which are exact on a finite value.
\<close>

datatype pyfloat = Finite rat | PosInf | NegInf | NaN

fun py_less :: "pyfloat \<Rightarrow> pyfloat \<Rightarrow> bool" where
  \<comment> \<open>\<^verbatim>\<open>a < b\<close> on numbers: every comparison with \<^verbatim>\<open>nan\<close> is \<open>False\<close>\<close>
  "py_less (Finite a) (Finite b) = (a < b)"
| "py_less (Finite a) PosInf = True"
| "py_less NegInf (Finite b) = True"
| "py_less NegInf PosInf = True"
| "py_less _ _ = False"

fun py_ge :: "pyfloat \<Rightarrow> pyfloat \<Rightarrow> bool" where
  \<comment> \<open>\<^verbatim>\<open>a >= b\<close> on numbers\<close>
  "py_ge (Finite a) (Finite b) = (b \<le> a)"
| "py_ge (Finite a) NegInf = True"
| "py_ge PosInf (Finite b) = True"
| "py_ge PosInf PosInf = True"
| "py_ge PosInf NegInf = True"
| "py_ge NegInf NegInf = True"
| "py_ge _ _ = False"

text \<open>
  What \<^verbatim>\<open>json.loads\<close> returns. A dict is the list of its items, keys distinct.
\<close>

datatype json =
    JNull
  | JBool bool
  | JInt int
  | JFloat pyfloat
  | JStr string
  | JArr "json list"
  | JObj "(string \<times> json) list"

definition dict_get :: "(string \<times> json) list \<Rightarrow> string \<Rightarrow> json \<Rightarrow> json" where
  \<comment> \<open>\<^verbatim>\<open>d.get(k, default)\<close>\<close>
  "dict_get kvs k dflt = (case map_of kvs k of None \<Rightarrow> dflt | Some v \<Rightarrow> v)"

fun truthy :: "json \<Rightarrow> bool" where
  "truthy JNull = False"
| "truthy (JBool b) = b"
| "truthy (JInt i) = (i \<noteq> 0)"
| "truthy (JFloat x) = (x \<noteq> Finite 0)"
| "truthy (JStr s) = (s \<noteq> [])"
| "truthy (JArr xs) = (xs \<noteq> [])"
| "truthy (JObj kvs) = (kvs \<noteq> [])"

fun py_iter :: "json \<Rightarrow> json list option" where
  \<comment> \<open>the items a \<^verbatim>\<open>for\<close> loop visits; \<open>None\<close> is the TypeError of a value that is not
      iterable\<close>
  "py_iter (JArr xs) = Some xs"
| "py_iter (JObj kvs) = Some (map (\<lambda>kv. JStr (fst kv)) kvs)"
| "py_iter (JStr s) = Some (map (\<lambda>c. JStr [c]) s)"
| "py_iter _ = None"

fun num_val :: "json \<Rightarrow> pyfloat option" where
  \<comment> \<open>the value of a number in a comparison (an \<^verbatim>\<open>int\<close> is compared by its exact value,
      \<^verbatim>\<open>bool\<close> is a subclass of \<^verbatim>\<open>int\<close>); \<open>None\<close> is the TypeError of comparing any other
      value with a number\<close>
  "num_val (JInt i) = Some (Finite (of_int i))"
| "num_val (JFloat x) = Some x"
| "num_val (JBool b) = Some (Finite (if b then 1 else 0))"
| "num_val _ = None"

text \<open>
  The library calls whose result the handlers use and which are not code of the
  repository: \<^verbatim>\<open>json.loads\<close> (\<open>None\<close> is JSONDecodeError), \<^verbatim>\<open>int\<close> on a \<^verbatim>\<open>str\<close> (\<open>None\<close> is
  ValueError), the text an f-string puts for a value that is not a \<^verbatim>\<open>str\<close>, the
  clock reading \<^verbatim>\<open>datetime.now().isoformat()\<close>, and \<^verbatim>\<open>data.decode('utf-8', errors='ignore')\<close>
  on the bytes of one read (a byte and a character below 256 are both a \<open>char\<close>).
\<close>

record pylib =
  json_loads :: "string \<Rightarrow> json option"
  int_of_str :: "string \<Rightarrow> int option"
  py_repr :: "json \<Rightarrow> string"
  now_iso :: string
  decode_ignore :: "string \<Rightarrow> string"

fun py_format :: "pylib \<Rightarrow> json \<Rightarrow> string" where
  \<comment> \<open>\<^verbatim>\<open>f"{v}"\<close>\<close>
  "py_format lib (JStr s) = s"
| "py_format lib (JInt i) = str_int i"
| "py_format lib v = py_repr lib v"

fun py_int :: "pylib \<Rightarrow> json \<Rightarrow> int option" where
  \<comment> \<open>\<^verbatim>\<open>int(float(p)) if isinstance(p, float) else int(p)\<close>; \<open>None\<close> is the TypeError or
      ValueError of \<^verbatim>\<open>int\<close>, or its OverflowError on an infinity\<close>
  "py_int lib (JFloat (Finite x)) = Some (py_trunc x)"
| "py_int lib (JFloat x) = None"
| "py_int lib (JInt i) = Some i"
| "py_int lib (JBool b) = Some (if b then 1 else 0)"
| "py_int lib (JStr s) = int_of_str lib s"
| "py_int lib _ = None"

section \<open>Regular expressions of the fallback parsers\<close>

abbreviation DQ :: char where "DQ \<equiv> CHR 0x22"

primrec re_search :: "(string \<Rightarrow> 'a option) \<Rightarrow> string \<Rightarrow> 'a option" where
  \<comment> \<open>\<^verbatim>\<open>re.search\<close>: the match at the leftmost position where the pattern matches\<close>
  "re_search m [] = m []"
| "re_search m (c # cs) = (case m (c # cs) of Some v \<Rightarrow> Some v | None \<Rightarrow> re_search m cs)"

definition after_key :: "string \<Rightarrow> char \<Rightarrow> string \<Rightarrow> string option" where
  \<comment> \<open>\<^verbatim>\<open>"key"\s*:\s*\<close> followed by the character \<open>opening\<close>, at the start of \<open>s\<close>: what follows\<close>
  "after_key key opening s =
     (let pat = [DQ] @ key @ [DQ]
      in if \<not> prefix pat s then None
         else (case dropWhile isspace (drop (length pat) s) of
                 [] \<Rightarrow> None
               | c # r \<Rightarrow>
                   if c \<noteq> CHR '':'' then None
                   else (case dropWhile isspace r of
                           [] \<Rightarrow> None
                         | q # r2 \<Rightarrow> if q = opening then Some r2 else None)))"

definition match_string_field :: "string \<Rightarrow> string \<Rightarrow> string option" where
  \<comment> \<open>group 1 of \<^verbatim>\<open>"key"\s*:\s*"([^"]+)"\<close> matched at the start of \<open>s\<close>\<close>
  "match_string_field key s =
     (case after_key key DQ s of
        None \<Rightarrow> None
      | Some r \<Rightarrow>
          (let v = takeWhile (\<lambda>c. c \<noteq> DQ) r
           in if v \<noteq> [] \<and> dropWhile (\<lambda>c. c \<noteq> DQ) r \<noteq> [] then Some v else None))"

definition match_materials :: "string \<Rightarrow> string option" where
  \<comment> \<open>group 1 of \<^verbatim>\<open>"Materials"\s*:\s*(\[.*?\])\<close> matched at the start of \<open>s\<close>: up to the
      first closing bracket, which the dot must reach without crossing a line feed\<close>
  "match_materials s =
     (case after_key ''Materials'' (CHR ''['') s of
        None \<Rightarrow> None
      | Some r \<Rightarrow>
          (let body = takeWhile (\<lambda>c. c \<noteq> CHR '']'') r
           in if dropWhile (\<lambda>c. c \<noteq> CHR '']'') r \<noteq> [] \<and> LF \<notin> set body
              then Some (CHR ''['' # body @ '']'') else None))"

section \<open>app.py\<close>

subsection \<open>SimpleTextToSpeech\<close>

text \<open>
  \<open>queue\<close> is \<^verbatim>\<open>self._queue\<close>; \<open>spoken\<close> lists the texts the worker has taken up for
  the speech engine (lines 83 to 93), in the order it did.
\<close>

record tts_state =
  queue :: "string list"
  spoken :: "string list"

definition speak :: "string \<Rightarrow> tts_state \<Rightarrow> tts_state" where
  "speak text t = t\<lparr>queue := queue t @ [text]\<rparr>"

definition worker_step :: "tts_state \<Rightarrow> tts_state" where
  \<comment> \<open>one pass of the loop of \<^verbatim>\<open>_worker\<close>: pop the head under the lock, speak it
      \<^verbatim>\<open>if text\<close>\<close>
  "worker_step t =
     (case queue t of
        [] \<Rightarrow> t
      | text # rest \<Rightarrow>
          if text \<noteq> [] then t\<lparr>queue := rest, spoken := spoken t @ [text]\<rparr>
          else t\<lparr>queue := rest\<rparr>)"

datatype tts_event = Speak string | Work

primrec tts_run :: "tts_event list \<Rightarrow> tts_state \<Rightarrow> tts_state" where
  \<comment> \<open>an interleaving of calls of \<^verbatim>\<open>speak\<close> by the main loop and passes of the worker; the
      lock makes each of them atomic\<close>
  "tts_run [] t = t"
| "tts_run (e # es) t =
     tts_run es (case e of Speak text \<Rightarrow> speak text t | Work \<Rightarrow> worker_step t)"

primrec enqueued :: "tts_event list \<Rightarrow> string list" where
  "enqueued [] = []"
| "enqueued (e # es) = (case e of Speak text \<Rightarrow> text # enqueued es | Work \<Rightarrow> enqueued es)"

subsection \<open>MiningData and EliteAssistant\<close>

type_synonym mining_row = "json \<times> json \<times> int"
  \<comment> \<open>timestamp, material, proportion\<close>

record app_state =
  tts :: tts_state
  mining_data :: "mining_row list"
  current_file :: "string option"
  last_position :: nat
  last_line :: "string option"

definition app_speak :: "string \<Rightarrow> app_state \<Rightarrow> app_state" where
  \<comment> \<open>\<^verbatim>\<open>self.tts.speak(message)\<close>\<close>
  "app_speak text st = st\<lparr>tts := speak text (tts st)\<rparr>"

definition add_material :: "json \<Rightarrow> json \<Rightarrow> int \<Rightarrow> app_state \<Rightarrow> app_state" where
  \<comment> \<open>\<^verbatim>\<open>self.mining_data.add_material(timestamp, name, percent)\<close>\<close>
  "add_material timestamp material proportion st =
     st\<lparr>mining_data := mining_data st @ [(timestamp, material, proportion)]\<rparr>"

text \<open>
  What the file system shows during one call: the names in the journal directory with
  their modification times (\<open>None\<close>: the directory is missing or cannot be listed), and
  the text of each file (\<open>None\<close>: it cannot be sized or opened). A path is the file name
  inside the one journal directory.
\<close>

record journal_dir =
  listing :: "(string \<times> rat) list option"
  files :: "string \<Rightarrow> string option"

definition find_latest_journal :: "journal_dir \<Rightarrow> string option" where
  "find_latest_journal w =
     (case listing w of
        None \<Rightarrow> None
      | Some entries \<Rightarrow>
          (case sort_key (\<lambda>e. - snd e)
                  (filter (\<lambda>e. prefix ''Journal.'' (fst e) \<and> suffix ''.log'' (fst e)) entries) of
             [] \<Rightarrow> None
           | e # _ \<Rightarrow> Some (fst e)))"

definition switch_journal :: "journal_dir \<Rightarrow> string \<Rightarrow> app_state \<Rightarrow> app_state" where
  \<comment> \<open>lines 187 to 194 of \<^verbatim>\<open>read_new_lines\<close>\<close>
  "switch_journal w latest st =
     (if Some latest \<noteq> current_file st
      then st\<lparr>current_file := Some latest,
               last_position := (case files w latest of Some text \<Rightarrow> length text | None \<Rightarrow> 0)\<rparr>
      else st)"

fun filter_lines :: "string list \<Rightarrow> string option \<Rightarrow> string list \<times> string option" where
  \<comment> \<open>the loop of lines 203 to 209: the result and the new \<^verbatim>\<open>self.last_line\<close>\<close>
  "filter_lines [] prev = ([], prev)"
| "filter_lines (l # ls) prev =
     (let line = strip l
      in if line = [] \<or> Some line = prev then filter_lines ls prev
         else (case filter_lines ls (Some line) of (result, prev') \<Rightarrow> (line # result, prev')))"

definition read_new_lines :: "journal_dir \<Rightarrow> app_state \<Rightarrow> string list \<times> app_state" where
  "read_new_lines w st =
     (case find_latest_journal w of
        None \<Rightarrow> ([], st)
      | Some latest \<Rightarrow>
          (let st1 = switch_journal w latest st
           in case files w latest of
                None \<Rightarrow> ([], st1)
              | Some text \<Rightarrow>
                  (let lines = readlines (drop (last_position st1) text);
                       st2 = st1\<lparr>last_position := max (last_position st1) (length text)\<rparr>
                   in case filter_lines lines (last_line st2) of
                        (result, prev') \<Rightarrow> (result, st2\<lparr>last_line := prev'\<rparr>))))"

subsection \<open>handle_mining\<close>

fun threshold_get :: "(string \<rightharpoonup> rat) \<Rightarrow> json \<Rightarrow> rat option option" where
  \<comment> \<open>\<^verbatim>\<open>self.mining_thresholds.get(name)\<close>: the keys of the configuration are strings and
      its values numbers; the outer \<open>None\<close> is the TypeError of an unhashable name\<close>
  "threshold_get thr (JStr s) = Some (thr s)"
| "threshold_get thr (JArr xs) = None"
| "threshold_get thr (JObj kvs) = None"
| "threshold_get thr _ = Some None"

fun strict_materials ::
  "pylib \<Rightarrow> (string \<rightharpoonup> rat) \<Rightarrow> json \<Rightarrow> json list \<Rightarrow> app_state \<Rightarrow> bool \<times> app_state" where
  \<comment> \<open>the loop of lines 241 to 262; \<open>False\<close>: an exception left it\<close>
  "strict_materials lib thr timestamp [] st = (True, st)"
| "strict_materials lib thr timestamp (mat # mats) st =
     (case mat of
        JObj kvs \<Rightarrow>
          (let name = dict_get kvs ''Name'' (JStr []);
               proportion = dict_get kvs ''Proportion'' (JInt 0)
           in if \<not> truthy name then strict_materials lib thr timestamp mats st
              else (case py_int lib proportion of
                      None \<Rightarrow> (False, st)
                    | Some percent \<Rightarrow>
                        (case threshold_get thr name of
                           None \<Rightarrow> (False, st)
                         | Some threshold \<Rightarrow>
                             (let st1 =
                                (case threshold of
                                   None \<Rightarrow> st
                                 | Some t \<Rightarrow>
                                     if t \<le> of_int percent
                                     then app_speak (py_format lib name @ '' found at '' @
                                                     str_int percent @ '' percent'') st
                                     else st)
                              in strict_materials lib thr timestamp mats
                                   (add_material timestamp name percent st1)))))
      | _ \<Rightarrow> (False, st))"

fun regex_materials ::
  "pylib \<Rightarrow> (string \<rightharpoonup> rat) \<Rightarrow> json \<Rightarrow> json list \<Rightarrow> app_state \<Rightarrow> bool \<times> app_state" where
  \<comment> \<open>the loop of lines 284 to 305\<close>
  "regex_materials lib thr timestamp [] st = (True, st)"
| "regex_materials lib thr timestamp (mat # mats) st =
     (case mat of
        JObj kvs \<Rightarrow>
          (let name = dict_get kvs ''Name'' (JStr []);
               proportion = dict_get kvs ''Proportion'' (JInt 0)
           in if \<not> truthy name then regex_materials lib thr timestamp mats st
              else (case py_int lib proportion of
                      None \<Rightarrow> (False, st)
                    | Some percent \<Rightarrow>
                        (case threshold_get thr name of
                           None \<Rightarrow> (False, st)
                         | Some threshold \<Rightarrow>
                             (let st1 =
                                (case threshold of
                                   None \<Rightarrow> st
                                 | Some t \<Rightarrow>
                                     if t \<le> of_int percent
                                     then app_speak (py_format lib name @ '' found at '' @
                                                     str_int percent @ '' percent'') st
                                     else st)
                              in regex_materials lib thr timestamp mats
                                   (add_material timestamp name percent st1)))))
      | _ \<Rightarrow> (False, st))"

definition mining_strict ::
  "pylib \<Rightarrow> (string \<rightharpoonup> rat) \<Rightarrow> json \<Rightarrow> app_state \<Rightarrow> bool \<times> app_state" where
  \<comment> \<open>lines 224 to 264, on the decoded line\<close>
  "mining_strict lib thr data st =
     (case data of
        JObj kvs \<Rightarrow>
          if dict_get kvs ''event'' JNull \<noteq> JStr ''ProspectedAsteroid'' then (False, st)
          else (let materials = dict_get kvs ''Materials'' (JArr []);
                    timestamp = dict_get kvs ''timestamp'' (JStr (now_iso lib))
                in if \<not> truthy materials then (False, st)
                   else (case py_iter materials of
                           None \<Rightarrow> (False, st)
                         | Some mats \<Rightarrow> strict_materials lib thr timestamp mats st))
      | _ \<Rightarrow> (False, st))"

definition mining_fallback ::
  "pylib \<Rightarrow> (string \<rightharpoonup> rat) \<Rightarrow> string \<Rightarrow> app_state \<Rightarrow> bool \<times> app_state" where
  \<comment> \<open>lines 266 to 310: the handler of JSONDecodeError\<close>
  "mining_fallback lib thr line st =
     (case re_search match_materials line of
        None \<Rightarrow> (False, st)
      | Some fragment \<Rightarrow>
          (case json_loads lib fragment of
             None \<Rightarrow> (False, st)
           | Some materials \<Rightarrow>
               (let timestamp =
                  (case re_search (match_string_field ''timestamp'') line of
                     Some t \<Rightarrow> JStr t
                   | None \<Rightarrow> JStr (now_iso lib))
                in case py_iter materials of
                     None \<Rightarrow> (False, st)
                   | Some mats \<Rightarrow> regex_materials lib thr timestamp mats st)))"

definition event_prospected :: string where
  \<open>event_prospected = ''"event":"ProspectedAsteroid"''\<close>

definition handle_mining ::
  "pylib \<Rightarrow> (string \<rightharpoonup> rat) \<Rightarrow> string \<Rightarrow> app_state \<Rightarrow> bool \<times> app_state" where
  "handle_mining lib thr line st =
     (if \<not> contains event_prospected line then (False, st)
      else (case json_loads lib line of
              Some data \<Rightarrow> mining_strict lib thr data st
            | None \<Rightarrow> mining_fallback lib thr line st))"

subsection \<open>handle_message\<close>

definition pirate_words :: "string list" where
  "pirate_words = [''cargo'', ''surrender'', ''let me see'', ''hand over'', ''pirate'']"

definition message_strict :: "pylib \<Rightarrow> json \<Rightarrow> app_state \<Rightarrow> bool \<times> app_state" where
  \<comment> \<open>lines 322 to 352, on the decoded line; an exception ends in the \<^verbatim>\<open>return False\<close> of
      line 375\<close>
  "message_strict lib data st =
     (case data of
        JObj kvs \<Rightarrow>
          if dict_get kvs ''event'' JNull \<noteq> JStr ''ReceiveText'' then (False, st)
          else (let sender = dict_get kvs ''From'' (JStr ''Unknown'');
                    message = dict_get kvs ''Message'' (JStr [])
                in case dict_get kvs ''Channel'' (JStr []) of
                     JStr ch \<Rightarrow>
                       (let channel = lower ch
                        in if channel = ''squadron''
                           then (True, app_speak (''message from squadron member '' @
                                   py_format lib sender @ '' saying: '' @ py_format lib message) st)
                           else if channel = ''npc''
                           then (case message of
                                   JStr m \<Rightarrow>
                                     if list_ex (\<lambda>word. contains word (lower m)) pirate_words
                                     then (True, app_speak (''NPC PIRATE MESSAGE: '' @ m) st)
                                     else (True, app_speak (''NPC message: '' @ m) st)
                                 | _ \<Rightarrow> (False, st))
                           else if channel = ''player''
                           then (True, app_speak (''player message from '' @
                                   py_format lib sender @ '' saying: '' @ py_format lib message) st)
                           else (False, st))
                   | _ \<Rightarrow> (False, st))
      | _ \<Rightarrow> (False, st))"

definition message_fallback :: "string \<Rightarrow> app_state \<Rightarrow> bool \<times> app_state" where
  \<comment> \<open>lines 355 to 371: the handler of JSONDecodeError\<close>
  "message_fallback line st =
     (case (re_search (match_string_field ''From'') line,
            re_search (match_string_field ''Message'') line,
            re_search (match_string_field ''Channel'') line) of
        (Some sender, Some message, Some ch) \<Rightarrow>
          if lower ch = ''squadron''
          then (True, app_speak (''message from squadron member '' @ sender @
                                 '' saying: '' @ message) st)
          else (False, st)
      | _ \<Rightarrow> (False, st))"

definition event_receive_text :: string where
  \<open>event_receive_text = ''"event":"ReceiveText"''\<close>

definition handle_message :: "pylib \<Rightarrow> string \<Rightarrow> app_state \<Rightarrow> bool \<times> app_state" where
  "handle_message lib line st =
     (if \<not> contains event_receive_text line then (False, st)
      else (case json_loads lib line of
              Some data \<Rightarrow> message_strict lib data st
            | None \<Rightarrow> message_fallback line st))"

definition process_line ::
  "pylib \<Rightarrow> (string \<rightharpoonup> rat) \<Rightarrow> string \<Rightarrow> app_state \<Rightarrow> bool \<times> app_state" where
  \<comment> \<open>lines 393 to 396 of \<^verbatim>\<open>run\<close>: \<^verbatim>\<open>handle_mining(line) or handle_message(line)\<close>\<close>
  "process_line lib thr line st =
     (case handle_mining lib thr line st of
        (True, st1) \<Rightarrow> (True, st1)
      | (False, st1) \<Rightarrow> handle_message lib line st1)"

definition app_init :: app_state where
  \<comment> \<open>the fields set by \<^verbatim>\<open>EliteAssistant.__init__\<close>\<close>
  "app_init = \<lparr>tts = \<lparr>queue = [], spoken = []\<rparr>, mining_data = [], current_file = None,
               last_position = 0, last_line = None\<rparr>"

section \<open>EDAT.py\<close>

text \<open>
  The model follows the text of each method. As the file stands, line 85 (a positional
  argument after keyword arguments in the call of \<^verbatim>\<open>json.dump\<close>) is not valid Python; the
  methods modelled here do not depend on that line.
\<close>

record stat_row =
  row_timestamp :: json
  row_material :: json
  row_proportion :: json
  row_motherlode :: bool
  row_content_type :: json
  row_remaining :: json

text \<open>
  \<open>waiting\<close> holds the texts of the threads that \<^verbatim>\<open>speak_text\<close> has started and that have
  not yet reached the engine, in the order of their start; \<open>said\<close> lists the texts passed
  to \<^verbatim>\<open>self.engine.say\<close>, in the order of the calls.
\<close>

record tracker_state =
  current_journal_path :: "string option"
  tracker_last_position :: nat
  tracker_last_line :: string
  stats :: "stat_row list"
  waiting :: "string list"
  said :: "string list"

definition tracker_init :: tracker_state where
  \<comment> \<open>the fields set by \<^verbatim>\<open>EliteAsteroidTracker.__init__\<close>, with no statistics file\<close>
  "tracker_init = \<lparr>current_journal_path = None, tracker_last_position = 0,
                   tracker_last_line = [], stats = [], waiting = [], said = []\<rparr>"

definition tracker_find_latest_journal ::
  "(string \<times> rat) list option \<Rightarrow> tracker_state \<Rightarrow> string option \<times> tracker_state" where
  \<comment> \<open>\<open>journal_files\<close>: the paths that the glob and the configured pattern accept, with
      their modification times; \<open>None\<close>: listing them raised\<close>
  "tracker_find_latest_journal journal_files st =
     (case journal_files of
        None \<Rightarrow> (None, st)
      | Some fs \<Rightarrow>
          (case sort_key (\<lambda>f. - snd f) fs of
             [] \<Rightarrow> (None, st)
           | f # _ \<Rightarrow>
               (let latest_file = fst f;
                    st' = (if current_journal_path st \<noteq> Some latest_file
                           then st\<lparr>current_journal_path := Some latest_file,
                                    tracker_last_position := 0,
                                    tracker_last_line := []\<rparr>
                           else st)
                in (current_journal_path st', st'))))"

definition assemble_lines :: "string \<Rightarrow> tracker_state \<Rightarrow> string list \<times> tracker_state" where
  \<comment> \<open>lines 196 to 209 of \<^verbatim>\<open>read_new_journal_entries\<close>: the list \<^verbatim>\<open>lines\<close> that the parsing
      loop receives\<close>
  "assemble_lines content st =
     (case splitlines content of
        [] \<Rightarrow> ([], st)
      | l # ls \<Rightarrow>
          (let (lines1, st1) =
                 (if tracker_last_line st \<noteq> []
                  then ((tracker_last_line st @ l) # ls, st\<lparr>tracker_last_line := []\<rparr>)
                  else (l # ls, st))
           in if \<not> suffix [LF] content
              then (butlast lines1, st1\<lparr>tracker_last_line := last lines1\<rparr>)
              else (lines1, st1)))"

definition read_journal_lines ::
  "pylib \<Rightarrow> (string \<Rightarrow> string option) \<Rightarrow> tracker_state \<Rightarrow> string list \<times> tracker_state" where
  \<comment> \<open>lines 158 to 209; \<open>disk\<close> gives the bytes of a path that exists and can be read.
      The size and the position count bytes, and the bytes of each read are decoded on
      their own\<close>
  "read_journal_lines lib disk st =
     (case current_journal_path st of
        None \<Rightarrow> ([], st)
      | Some path \<Rightarrow>
          if path = [] then ([], st)
          else (case disk path of
                  None \<Rightarrow> ([], st)
                | Some bytes \<Rightarrow>
                    if length bytes \<le> tracker_last_position st then ([], st)
                    else (let data = drop (tracker_last_position st) bytes;
                              content = decode_ignore lib data
                          in assemble_lines content
                               (st\<lparr>tracker_last_position := length bytes\<rparr>))))"

definition parse_entries :: "pylib \<Rightarrow> string list \<Rightarrow> json list" where
  \<comment> \<open>lines 212 to 221: a blank line and a line that does not decode give no entry\<close>
  "parse_entries lib lines =
     List.map_filter (\<lambda>line. if strip line \<noteq> [] then json_loads lib line else None) lines"

definition read_new_journal_entries ::
  "pylib \<Rightarrow> (string \<Rightarrow> string option) \<Rightarrow> tracker_state \<Rightarrow> json list \<times> tracker_state" where
  "read_new_journal_entries lib disk st =
     (case read_journal_lines lib disk st of (lines, st') \<Rightarrow> (parse_entries lib lines, st'))"

fun tail_lines ::
  "pylib \<Rightarrow> string \<Rightarrow> string list \<Rightarrow> tracker_state \<Rightarrow> string list \<times> tracker_state" where
  \<comment> \<open>successive reads of the file at \<open>path\<close>, one for each content the file holds in turn:
      all the lines that reach the parsing loop\<close>
  "tail_lines lib path [] st = ([], st)"
| "tail_lines lib path (bytes # rest) st =
     (case read_journal_lines lib [path \<mapsto> bytes] st of
        (ls, st1) \<Rightarrow>
          (case tail_lines lib path rest st1 of (ls', st2) \<Rightarrow> (ls @ ls', st2)))"

fun snapshots :: "string \<Rightarrow> string list \<Rightarrow> string list" where
  \<comment> \<open>the contents of a file that holds \<open>pre\<close> and grows by the chunks in turn\<close>
  "snapshots pre [] = []"
| "snapshots pre (chunk # chunks) = (pre @ chunk) # snapshots (pre @ chunk) chunks"

definition speak_text :: "string \<Rightarrow> tracker_state \<Rightarrow> tracker_state" where
  \<comment> \<open>starts a thread that will pass \<open>text\<close> to the engine\<close>
  "speak_text text st = st\<lparr>waiting := waiting st @ [text]\<rparr>"

definition thread_run :: "nat \<Rightarrow> tracker_state \<Rightarrow> tracker_state" where
  \<comment> \<open>the waiting thread number \<open>i\<close> runs \<^verbatim>\<open>self.engine.say(text)\<close>\<close>
  "thread_run i st =
     (if i < length (waiting st)
      then st\<lparr>waiting := take i (waiting st) @ drop (Suc i) (waiting st),
               said := said st @ [waiting st ! i]\<rparr>
      else st)"

datatype tracker_event = SpeakText string | ThreadRun nat

primrec tracker_run :: "tracker_event list \<Rightarrow> tracker_state \<Rightarrow> tracker_state" where
  \<comment> \<open>a schedule: calls of \<^verbatim>\<open>speak_text\<close> by the monitoring loop and runs of started threads\<close>
  "tracker_run [] st = st"
| "tracker_run (e # es) st =
     tracker_run es (case e of SpeakText text \<Rightarrow> speak_text text st | ThreadRun i \<Rightarrow> thread_run i st)"

primrec requested :: "tracker_event list \<Rightarrow> string list" where
  "requested [] = []"
| "requested (e # es) =
     (case e of SpeakText text \<Rightarrow> text # requested es | ThreadRun i \<Rightarrow> requested es)"

definition record_asteroid ::
  "json \<Rightarrow> json \<Rightarrow> json \<Rightarrow> bool \<Rightarrow> json \<Rightarrow> json \<Rightarrow> tracker_state \<Rightarrow> tracker_state" where
  "record_asteroid timestamp material proportion is_motherlode content_type remaining st =
     st\<lparr>stats := stats st @
           [\<lparr>row_timestamp = timestamp, row_material = material, row_proportion = proportion,
             row_motherlode = is_motherlode, row_content_type = content_type,
             row_remaining = remaining\<rparr>]\<rparr>"

fun round_number :: "json \<Rightarrow> int option" where
  \<comment> \<open>\<^verbatim>\<open>round(proportion)\<close>; \<open>None\<close> is the OverflowError of an infinity, the ValueError of
      \<^verbatim>\<open>nan\<close> or the TypeError of a value that is not a number\<close>
  "round_number (JFloat (Finite x)) = Some (py_round x)"
| "round_number (JFloat x) = None"
| "round_number (JInt i) = Some i"
| "round_number (JBool b) = Some (if b then 1 else 0)"
| "round_number _ = None"

fun scan_materials ::
  "pylib \<Rightarrow> (string \<rightharpoonup> rat) \<Rightarrow> (string \<times> json) list \<Rightarrow> json \<Rightarrow> json list \<Rightarrow> tracker_state
     \<Rightarrow> bool \<times> tracker_state" where
  \<comment> \<open>the loop of lines 264 to 285 and the \<^verbatim>\<open>return\<close> that ends \<^verbatim>\<open>process_asteroid\<close>:
      \<^verbatim>\<open>found_valuable\<close>, or the \<open>False\<close> of line 292 after an exception. The row is recorded
      (line 273) before the proportion is rounded (line 283)\<close>
  "scan_materials lib target entry remaining [] st = (False, st)"
| "scan_materials lib target entry remaining (material # rest) st =
     (case material of
        JObj kvs \<Rightarrow>
          (let material_name = dict_get kvs ''Name'' (JStr []);
               proportion = dict_get kvs ''Proportion'' (JFloat (Finite 0))
           in case threshold_get target material_name of
                None \<Rightarrow> (False, st)
              | Some None \<Rightarrow> scan_materials lib target entry remaining rest st
              | Some (Some threshold) \<Rightarrow>
                  (case num_val proportion of
                     None \<Rightarrow> (False, st)
                   | Some p \<Rightarrow>
                       if py_ge p (Finite threshold)
                       then (let st1 =
                                   record_asteroid
                                     (dict_get entry ''timestamp'' (JStr (now_iso lib)))
                                     material_name proportion
                                     (map_of entry ''MotherlodeMaterial'' = Some material_name)
                                     (dict_get entry ''Content_Localised'' (JStr ''Unknown''))
                                     remaining st
                             in case round_number proportion of
                                  None \<Rightarrow> (False, st1)
                                | Some rounded_proportion \<Rightarrow>
                                    (True,
                                     speak_text (py_format lib material_name @
                                                 '' asteroid found with '' @
                                                 str_int rounded_proportion @
                                                 '' percent content'') st1))
                       else scan_materials lib target entry remaining rest st))
      | _ \<Rightarrow> (False, st))"

definition process_asteroid ::
  "pylib \<Rightarrow> (string \<rightharpoonup> rat) \<Rightarrow> json \<Rightarrow> tracker_state \<Rightarrow> bool option \<times> tracker_state" where
  \<comment> \<open>the result \<open>None\<close> is the bare \<^verbatim>\<open>return\<close> of lines 253 and 258\<close>
  "process_asteroid lib target entry st =
     (case entry of
        JObj kvs \<Rightarrow>
          if dict_get kvs ''event'' JNull \<noteq> JStr ''ProspectedAsteroid'' then (None, st)
          else (let remaining = dict_get kvs ''Remaining'' (JInt 0)
                in case num_val remaining of
                     None \<Rightarrow> (Some False, st)
                   | Some r \<Rightarrow>
                       if py_less r (Finite 100) then (None, st)
                       else (case py_iter (dict_get kvs ''Materials'' (JArr [])) of
                               None \<Rightarrow> (Some False, st)
                             | Some materials \<Rightarrow>
                                 (case scan_materials lib target kvs remaining materials st of
                                    (found_valuable, st') \<Rightarrow> (Some found_valuable, st'))))
      | _ \<Rightarrow> (Some False, st))"

section \<open>Well-typed materials and what the two programs do with them\<close>

fun is_number :: "json \<Rightarrow> bool" where
  \<comment> \<open>a number as \<^verbatim>\<open>json.loads\<close> returns it: an \<^verbatim>\<open>int\<close> or a \<^verbatim>\<open>float\<close>, finite or not\<close>
  "is_number (JInt i) = True"
| "is_number (JFloat x) = True"
| "is_number _ = False"

fun is_finite_number :: "json \<Rightarrow> bool" where
  \<comment> \<open>an \<^verbatim>\<open>int\<close> or a finite \<^verbatim>\<open>float\<close>\<close>
  "is_finite_number (JInt i) = True"
| "is_finite_number (JFloat (Finite x)) = True"
| "is_finite_number _ = False"

fun is_str :: "json \<Rightarrow> bool" where
  "is_str (JStr s) = True"
| "is_str _ = False"

definition wt_material :: "json \<Rightarrow> bool" where
  \<comment> \<open>a material as the journal writes it: an object whose \<^verbatim>\<open>Name\<close>, if present, is a string and whose \<^verbatim>\<open>Proportion\<close>, if present, is a number\<close>
  "wt_material m =
     (case m of
        JObj kvs \<Rightarrow>
          (case map_of kvs ''Name'' of None \<Rightarrow> True | Some v \<Rightarrow> is_str v)
          \<and> (case map_of kvs ''Proportion'' of None \<Rightarrow> True | Some v \<Rightarrow> is_number v)
      | _ \<Rightarrow> False)"

definition material_name :: "json \<Rightarrow> json" where
  \<comment> \<open>\<^verbatim>\<open>mat.get("Name", "")\<close>\<close>
  "material_name m = (case m of JObj kvs \<Rightarrow> dict_get kvs ''Name'' (JStr []) | _ \<Rightarrow> JNull)"

definition material_proportion :: "json \<Rightarrow> json \<Rightarrow> json" where
  \<comment> \<open>\<^verbatim>\<open>mat.get("Proportion", dflt)\<close>\<close>
  "material_proportion dflt m =
     (case m of JObj kvs \<Rightarrow> dict_get kvs ''Proportion'' dflt | _ \<Rightarrow> JNull)"

definition finite_proportion :: "json \<Rightarrow> bool" where
  \<comment> \<open>the proportion of the material, if present, is an \<^verbatim>\<open>int\<close> or a finite \<^verbatim>\<open>float\<close>\<close>
  "finite_proportion m = is_finite_number (material_proportion (JInt 0) m)"

definition meets_target :: "(string \<rightharpoonup> rat) \<Rightarrow> json \<Rightarrow> bool" where
  \<comment> \<open>in EDAT.py: the material is a target material and \<^verbatim>\<open>proportion >= threshold\<close> holds\<close>
  "meets_target target m =
     (case material_name m of
        JStr s \<Rightarrow>
          (case target s of
             Some t \<Rightarrow>
               (case num_val (material_proportion (JFloat (Finite 0)) m) of
                  Some p \<Rightarrow> py_ge p (Finite t)
                | None \<Rightarrow> False)
           | None \<Rightarrow> False)
      | _ \<Rightarrow> False)"

definition tracker_message :: "pylib \<Rightarrow> json \<Rightarrow> int \<Rightarrow> string" where
  \<comment> \<open>the announcement of EDAT.py for the material \<open>m\<close>, whose proportion rounds to \<open>r\<close>\<close>
  "tracker_message lib m r =
     py_format lib (material_name m) @ '' asteroid found with '' @ str_int r @
     '' percent content''"

definition tracker_announcements :: "pylib \<Rightarrow> json \<Rightarrow> string list" where
  \<comment> \<open>what EDAT.py announces for the material \<open>m\<close> once it has recorded it: nothing if
      \<^verbatim>\<open>round\<close> raises\<close>
  "tracker_announcements lib m =
     (case round_number (material_proportion (JFloat (Finite 0)) m) of
        None \<Rightarrow> []
      | Some r \<Rightarrow> [tracker_message lib m r])"

definition tracker_row :: "pylib \<Rightarrow> (string \<times> json) list \<Rightarrow> json \<Rightarrow> json \<Rightarrow> stat_row" where
  \<comment> \<open>the row EDAT.py records for the material \<open>m\<close>\<close>
  "tracker_row lib entry remaining m =
     \<lparr>row_timestamp = dict_get entry ''timestamp'' (JStr (now_iso lib)),
      row_material = material_name m,
      row_proportion = material_proportion (JFloat (Finite 0)) m,
      row_motherlode = (map_of entry ''MotherlodeMaterial'' = Some (material_name m)),
      row_content_type = dict_get entry ''Content_Localised'' (JStr ''Unknown''),
      row_remaining = remaining\<rparr>"

definition after_scan ::
  "pylib \<Rightarrow> (string \<rightharpoonup> rat) \<Rightarrow> (string \<times> json) list \<Rightarrow> json \<Rightarrow> json list \<Rightarrow> tracker_state
     \<Rightarrow> tracker_state" where
  \<comment> \<open>the state of EDAT.py after the loop over well-typed materials: the row of the first
      material that meets its target, and the announcement for that material\<close>
  "after_scan lib target entry remaining mats st =
     (case find (meets_target target) mats of
        None \<Rightarrow> st
      | Some m \<Rightarrow>
          st\<lparr>stats := stats st @ [tracker_row lib entry remaining m],
             waiting := waiting st @ tracker_announcements lib m\<rparr>)"

fun percent_of :: "json \<Rightarrow> int" where
  \<comment> \<open>the \<^verbatim>\<open>percent\<close> of app.py for a finite number\<close>
  "percent_of (JFloat (Finite x)) = py_trunc x"
| "percent_of (JInt i) = i"
| "percent_of _ = 0"

definition named :: "json \<Rightarrow> bool" where
  \<comment> \<open>in app.py: the material has a name (\<^verbatim>\<open>if not name: continue\<close>)\<close>
  "named m = truthy (material_name m)"

definition app_readable :: "json \<Rightarrow> bool" where
  \<comment> \<open>in app.py: the loop gets past the material, which has no name or whose \<^verbatim>\<open>percent\<close>
      can be computed\<close>
  "app_readable m = (\<not> named m \<or> finite_proportion m)"

definition meets_threshold :: "(string \<rightharpoonup> rat) \<Rightarrow> json \<Rightarrow> bool" where
  \<comment> \<open>in app.py: the material has a threshold and its percent is at least the threshold\<close>
  "meets_threshold thr m =
     (case material_name m of
        JStr s \<Rightarrow>
          s \<noteq> [] \<and>
          (case thr s of
             Some t \<Rightarrow> t \<le> of_int (percent_of (material_proportion (JInt 0) m))
           | None \<Rightarrow> False)
      | _ \<Rightarrow> False)"

definition app_message :: "pylib \<Rightarrow> json \<Rightarrow> string" where
  \<comment> \<open>the announcement of app.py for the material \<open>m\<close>\<close>
  "app_message lib m =
     py_format lib (material_name m) @ '' found at '' @
     str_int (percent_of (material_proportion (JInt 0) m)) @ '' percent''"

definition app_row :: "json \<Rightarrow> json \<Rightarrow> mining_row" where
  \<comment> \<open>the row app.py stores for the material \<open>m\<close>\<close>
  "app_row timestamp m =
     (timestamp, material_name m, percent_of (material_proportion (JInt 0) m))"

definition after_materials ::
  "pylib \<Rightarrow> (string \<rightharpoonup> rat) \<Rightarrow> json \<Rightarrow> json list \<Rightarrow> app_state \<Rightarrow> app_state" where
  \<comment> \<open>the state of app.py after the loop has gone through the materials \<open>mats\<close>\<close>
  "after_materials lib thr timestamp mats st =
     st\<lparr>tts := (tts st)\<lparr>queue := queue (tts st) @
                               map (app_message lib) (filter (meets_threshold thr) mats)\<rparr>,
        mining_data := mining_data st @ map (app_row timestamp) (filter named mats)\<rparr>"

section \<open>Texts and their lines\<close>

fun journal_text :: "string \<Rightarrow> bool" where
  \<comment> \<open>a text in which every line ends with LF or with CR LF: a CR stands only before an LF, and no other character at which \<^verbatim>\<open>splitlines\<close> breaks a line occurs\<close>
  "journal_text [] = True"
| "journal_text (c # cs) =
     (if c = CR then (case cs of [] \<Rightarrow> False | d # ds \<Rightarrow> d = LF \<and> journal_text cs)
      else (c = LF \<or> \<not> line_boundary c) \<and> journal_text cs)"

definition is_ascii :: "string \<Rightarrow> bool" where
  \<comment> \<open>every character is below 128: the text and its UTF-8 encoding are the same list\<close>
  "is_ascii s = list_all (\<lambda>c. (of_char c :: nat) < 128) s"

definition caught_up :: "string \<Rightarrow> string list \<Rightarrow> string \<Rightarrow> bool" where
  \<comment> \<open>after the text \<open>consumed\<close> has been read, the lines passed on are its terminated lines and the pending line is its unterminated rest\<close>
  "caught_up consumed emitted pending =
     (if consumed = [] \<or> last consumed = LF
      then emitted = splitlines consumed \<and> pending = []
      else emitted = butlast (splitlines consumed) \<and> pending = last (splitlines consumed))"

section \<open>Journal lines used in the examples\<close>

definition lib_of :: "(string \<times> json) list \<Rightarrow> pylib" where
  \<comment> \<open>a library whose \<^verbatim>\<open>json.loads\<close> decodes the listed texts and rejects every other. Its
      decoder returns the bytes it receives, as the codec does on the ASCII journals of
      the examples\<close>
  "lib_of table = \<lparr>json_loads = map_of table, int_of_str = (\<lambda>s. None), py_repr = (\<lambda>v. []),
                    now_iso = ''2024-01-01T00:00:00'', decode_ignore = (\<lambda>bytes. bytes)\<rparr>"

definition journal1 :: string where
  "journal1 = ''Journal.2024-01-01T000000.01.log''"

definition prospect_line :: string where
  \<open>prospect_line = ''{"timestamp":"2024-01-01T00:00:00Z","event":"ProspectedAsteroid","Materials":[{"Name":"Platinum","Proportion":55.0}],"Remaining":100.0}''\<close>

definition prospect_items :: "(string \<times> json) list" where
  "prospect_items = [(''timestamp'', JStr ''2024-01-01T00:00:00Z''),
     (''event'', JStr ''ProspectedAsteroid''),
     (''Materials'', JArr [JObj [(''Name'', JStr ''Platinum''), (''Proportion'', JFloat (Finite 55))]]),
     (''Remaining'', JFloat (Finite 100))]"

definition prospect_entry :: json where
  "prospect_entry = JObj prospect_items"


definition dir_repeat :: journal_dir where
  \<comment> \<open>the journal holds the same prospecting result twice\<close>
  "dir_repeat = \<lparr>listing = Some [(''notes.txt'', 9), (journal1, 5)],
                  files = [journal1 \<mapsto> prospect_line @ [CR, LF] @ prospect_line @ [CR, LF]]\<rparr>"

definition st_after_first :: app_state where
  \<comment> \<open>the state after the read that returned the first of the two lines\<close>
  "st_after_first = app_init\<lparr>current_file := Some journal1,
      last_position := length prospect_line + 2, last_line := Some prospect_line\<rparr>"

definition drop_repeats :: "string option \<Rightarrow> string list \<Rightarrow> string list" where
  \<comment> \<open>the lines \<open>xs\<close> without each one that equals the line kept before it, \<open>prev\<close> being the
      line kept before the first\<close>
  "drop_repeats prev xs =
     (case prev of None \<Rightarrow> remdups_adj xs | Some p \<Rightarrow> tl (remdups_adj (p # xs)))"

definition dir_first :: journal_dir where
  \<comment> \<open>a journal that already holds one line when the program starts\<close>
  "dir_first = \<lparr>listing = Some [(journal1, 5)], files = [journal1 \<mapsto> prospect_line @ [CR, LF]]\<rparr>"

definition tts_init :: tts_state where
  \<comment> \<open>the queue set by \<^verbatim>\<open>SimpleTextToSpeech.__init__\<close>\<close>
  "tts_init = \<lparr>queue = [], spoken = []\<rparr>"


definition poor_items :: "(string \<times> json) list" where
  "poor_items = [(''timestamp'', JStr ''2024-01-01T00:00:00Z''),
     (''event'', JStr ''ProspectedAsteroid''),
     (''Materials'', JArr [JObj [(''Name'', JStr ''Platinum''), (''Proportion'', JFloat (Finite 10))]]),
     (''Remaining'', JFloat (Finite 100))]"

definition near_line :: string where
  \<open>near_line = ''{"timestamp":"2024-01-01T00:00:00Z","event":"ProspectedAsteroid","Materials":[{"Name":"Platinum","Proportion":49.9}],"Remaining":100.0}''\<close>

definition near_items :: "(string \<times> json) list" where
  "near_items = [(''timestamp'', JStr ''2024-01-01T00:00:00Z''),
     (''event'', JStr ''ProspectedAsteroid''),
     (''Materials'', JArr [JObj [(''Name'', JStr ''Platinum''), (''Proportion'', JFloat (Finite (499 / 10)))]]),
     (''Remaining'', JFloat (Finite 100))]"

definition two_line :: string where
  \<open>two_line = ''{"timestamp":"2024-01-01T00:00:00Z","event":"ProspectedAsteroid","Materials":[{"Name":"Platinum","Proportion":55.0},{"Name":"Painite","Proportion":40.0}],"Remaining":100.0}''\<close>

definition two_items :: "(string \<times> json) list" where
  "two_items = [(''timestamp'', JStr ''2024-01-01T00:00:00Z''),
     (''event'', JStr ''ProspectedAsteroid''),
     (''Materials'', JArr [JObj [(''Name'', JStr ''Platinum''), (''Proportion'', JFloat (Finite 55))],
                          JObj [(''Name'', JStr ''Painite''), (''Proportion'', JFloat (Finite 40))]]),
     (''Remaining'', JFloat (Finite 100))]"

definition target_materials :: "string \<rightharpoonup> rat" where
  \<comment> \<open>\<^verbatim>\<open>DEFAULT_CONFIG["target_materials"]\<close> of EDAT.py\<close>
  "target_materials = [''Platinum'' \<mapsto> 50, ''Gold'' \<mapsto> 50, ''Painite'' \<mapsto> 50]"

definition lib0 :: pylib where "lib0 = lib_of []"

definition thresholds_two :: "string \<rightharpoonup> rat" where
  \<comment> \<open>a \<^verbatim>\<open>mining.json\<close> with two materials\<close>
  "thresholds_two = [''Platinum'' \<mapsto> 30, ''Painite'' \<mapsto> 30]"

definition frac_items :: "(string \<times> json) list" where
  "frac_items = [(''timestamp'', JStr ''2024-01-01T00:00:00Z''),
     (''event'', JStr ''ProspectedAsteroid''),
     (''Materials'', JArr [JObj [(''Name'', JStr ''Platinum''), (''Proportion'', JFloat (Finite (273 / 5)))]]),
     (''Remaining'', JFloat (Finite 100))]"

definition music_head :: string where
  \<comment> \<open>the first part of a line that reaches the file in two writes\<close>
  \<open>music_head = ''{"event":''\<close>

definition music_tail :: string where
  \<comment> \<open>the second part of that line\<close>
  \<open>music_tail = ''"Music"}''\<close>

definition dir_partial :: journal_dir where
  \<comment> \<open>the journal when only the first part of the line has been written\<close>
  "dir_partial = \<lparr>listing = Some [(journal1, 5)], files = [journal1 \<mapsto> music_head]\<rparr>"

definition dir_whole :: journal_dir where
  \<comment> \<open>the journal when the line is complete\<close>
  "dir_whole = \<lparr>listing = Some [(journal1, 6)],
                 files = [journal1 \<mapsto> music_head @ music_tail @ [LF]]\<rparr>"

definition app_tracking :: app_state where
  \<comment> \<open>app.py tracking the journal from its beginning\<close>
  "app_tracking = app_init\<lparr>current_file := Some journal1\<rparr>"

definition tracker_tracking :: tracker_state where
  \<comment> \<open>EDAT.py tracking the journal from its beginning\<close>
  "tracker_tracking = tracker_init\<lparr>current_journal_path := Some journal1\<rparr>"



definition squadron_line :: string where
  \<comment> \<open>a squadron message as the journal writes it\<close>
  \<open>squadron_line = ''{"timestamp":"2024-01-01T00:00:00Z","event":"ReceiveText","From":"Bob","Message":"hello","Channel":"squadron"}''\<close>


definition squadron_items :: "(string \<times> json) list" where
  \<comment> \<open>the complete record of that message, decoded\<close>
  "squadron_items = [(''timestamp'', JStr ''2024-01-01T00:00:00Z''),
     (''event'', JStr ''ReceiveText''), (''From'', JStr ''Bob''), (''Message'', JStr ''hello''),
     (''Channel'', JStr ''squadron'')]"









definition inf_line :: string where
  \<comment> \<open>a prospecting result whose first proportion, \<^verbatim>\<open>1e999\<close>, exceeds every float:
      \<^verbatim>\<open>json.loads\<close> returns \<^verbatim>\<open>inf\<close> for it\<close>
  \<open>inf_line = ''{"timestamp":"2024-01-01T00:00:00Z","event":"ProspectedAsteroid","Materials":[{"Name":"Gold","Proportion":1e999},{"Name":"Platinum","Proportion":55.0}],"Remaining":100.0}''\<close>

definition inf_items :: "(string \<times> json) list" where
  "inf_items = [(''timestamp'', JStr ''2024-01-01T00:00:00Z''),
     (''event'', JStr ''ProspectedAsteroid''),
     (''Materials'', JArr [JObj [(''Name'', JStr ''Gold''), (''Proportion'', JFloat PosInf)],
                          JObj [(''Name'', JStr ''Platinum''), (''Proportion'', JFloat (Finite 55))]]),
     (''Remaining'', JFloat (Finite 100))]"


definition poor_line :: string where
  \<comment> \<open>the line that decodes to \<open>poor_items\<close>\<close>
  \<open>poor_line = ''{"timestamp":"2024-01-01T00:00:00Z","event":"ProspectedAsteroid","Materials":[{"Name":"Platinum","Proportion":10.0}],"Remaining":100.0}''\<close>

definition accent_head :: string where
  \<comment> \<open>the bytes of \<^verbatim>\<open>Caf\<close> and the first of the two bytes that encode the letter e with an
      acute accent, U+00E9\<close>
  "accent_head = ''Caf'' @ [CHR 0xC3]"

definition accent_tail :: string where
  \<comment> \<open>the second byte of that letter and the end of the line\<close>
  "accent_tail = [CHR 0xA9, LF]"

definition lib_accent :: pylib where
  \<comment> \<open>a library whose decoder returns what the codec returns for the three byte strings of
      the example: it drops the lead byte that ends the first, it drops the continuation
      byte that begins the second, and it decodes the two bytes in the whole to the
      character U+00E9\<close>
  "lib_accent = (lib_of [])\<lparr>decode_ignore :=
     (\<lambda>bytes. if bytes = accent_head then ''Caf''
               else if bytes = accent_tail then [LF]
               else if bytes = accent_head @ accent_tail then ''Caf'' @ [CHR 0xE9, LF]
               else bytes)\<rparr>"

section \<open>Properties\<close>

subsection \<open>The line reader of app.py\<close>

lemma remdups_adj_hd_tl: "remdups_adj (y # ys) = y # tl (remdups_adj (y # ys))"
  by (cases ys) auto

lemma drop_repeats_Nil: "drop_repeats prev [] = []"
  by (simp add: drop_repeats_def split: option.splits)

lemma drop_repeats_same: "drop_repeats (Some y) (y # ys) = drop_repeats (Some y) ys"
  by (simp add: drop_repeats_def)

lemma drop_repeats_new:
  "prev \<noteq> Some y \<Longrightarrow> drop_repeats prev (y # ys) = y # drop_repeats (Some y) ys"
  unfolding drop_repeats_def
  by (cases prev) (simp_all add: remdups_adj_hd_tl [symmetric])

lemma filter_lines_fst:
  "fst (filter_lines ls prev) = drop_repeats prev (filter (\<lambda>l. l \<noteq> []) (map strip ls))"
proof (induction ls arbitrary: prev)
  case Nil
  show ?case by (simp add: drop_repeats_Nil)
next
  case (Cons l ls)
  show ?case
  proof (cases "strip l = []")
    case True
    then show ?thesis using Cons.IH [of prev] by simp
  next
    case False
    show ?thesis
    proof (cases "Some (strip l) = prev")
      case True
      then show ?thesis
        using Cons.IH [of prev] False drop_repeats_same [of "strip l"] by auto
    next
      case new: False
      then have "prev \<noteq> Some (strip l)" by auto
      then show ?thesis
        using Cons.IH [of "Some (strip l)"] False new drop_repeats_new [of prev "strip l"]
        by (cases "filter_lines ls (Some (strip l))") (simp add: Let_def)
    qed
  qed
qed

lemma filter_lines_snd:
  "filter_lines ls prev = (result, prev') \<Longrightarrow>
     prev' = (case result of [] \<Rightarrow> prev | _ # _ \<Rightarrow> Some (last result))"
proof (induction ls arbitrary: prev result prev')
  case Nil
  then show ?case by simp
next
  case (Cons l ls)
  show ?case
  proof (cases "strip l = [] \<or> Some (strip l) = prev")
    case True
    then show ?thesis using Cons.prems Cons.IH [of prev result prev'] by auto
  next
    case False
    obtain r p where rec: "filter_lines ls (Some (strip l)) = (r, p)"
      by (cases "filter_lines ls (Some (strip l))")
    then have res: "result = strip l # r" and p: "prev' = p"
      using False Cons.prems by (simp_all add: Let_def)
    show ?thesis
      using Cons.IH [OF rec] res p by (cases r) simp_all
  qed
qed

text \<open>
  C9. In app.py the reader drops every line that, once stripped, equals the line it
  returned last, also when that line was returned by an earlier call: what a read returns
  is the non-blank stripped lines of the new text without each line that repeats the one
  kept before it, starting from the remembered \<^verbatim>\<open>last_line\<close>; and the reader then
  remembers the last line it returned.
\<close>

theorem read_new_lines_drops_repeats:
  assumes "find_latest_journal w = Some latest" and "files w latest = Some text"
  shows "fst (read_new_lines w st) =
           drop_repeats (last_line st)
             (filter (\<lambda>l. l \<noteq> [])
                (map strip (readlines (drop (last_position (switch_journal w latest st)) text))))
         \<and> last_line (snd (read_new_lines w st)) =
             (case fst (read_new_lines w st) of
                [] \<Rightarrow> last_line st
              | _ # _ \<Rightarrow> Some (last (fst (read_new_lines w st))))"
proof -
  let ?st1 = "switch_journal w latest st"
  let ?ls = "readlines (drop (last_position ?st1) text)"
  have keep: "last_line ?st1 = last_line st"
    by (simp add: switch_journal_def)
  obtain result prev' where fl: "filter_lines ?ls (last_line st) = (result, prev')"
    by (cases "filter_lines ?ls (last_line st)")
  have r: "read_new_lines w st =
             (result, ?st1\<lparr>last_position := max (last_position ?st1) (length text),
                             last_line := prev'\<rparr>)"
    using assms fl keep by (simp add: read_new_lines_def Let_def)
  have f: "fst (read_new_lines w st) = result"
    and l: "last_line (snd (read_new_lines w st)) = prev'"
    using r by simp_all
  have "result = drop_repeats (last_line st) (filter (\<lambda>l. l \<noteq> []) (map strip ?ls))"
    using fl filter_lines_fst [of ?ls "last_line st"] by simp
  moreover have "prev' = (case result of [] \<Rightarrow> last_line st | _ # _ \<Rightarrow> Some (last result))"
    using filter_lines_snd [OF fl] .
  ultimately show ?thesis
    unfolding f l by blast
qed

theorem read_new_lines_drops_repeats_witness:
  "find_latest_journal dir_repeat = Some journal1
   \<and> files dir_repeat journal1 = Some (prospect_line @ [CR, LF] @ prospect_line @ [CR, LF])
   \<and> last_line st_after_first = Some prospect_line
   \<and> fst (read_new_lines dir_repeat st_after_first) = []
   \<and> last_line (snd (read_new_lines dir_repeat st_after_first)) = Some prospect_line"
proof -
  have a: "find_latest_journal dir_repeat = Some journal1"
    by code_simp
  have b: "files dir_repeat journal1 = Some (prospect_line @ [CR, LF] @ prospect_line @ [CR, LF])"
    by (simp add: dir_repeat_def)
  have c: "filter (\<lambda>l. l \<noteq> []) (map strip (readlines (drop (last_position
             (switch_journal dir_repeat journal1 st_after_first))
             (prospect_line @ [CR, LF] @ prospect_line @ [CR, LF])))) = [prospect_line]"
    by code_simp
  have d: "last_line st_after_first = Some prospect_line"
    by (simp add: st_after_first_def)
  show ?thesis
    using read_new_lines_drops_repeats [OF a b, of st_after_first] a b d
    unfolding c d by (simp add: drop_repeats_def)
qed

subsection \<open>The event discriminator of app.py\<close>



subsection \<open>Switching to a new journal\<close>

text \<open>
  C1, as amended. In app.py a resolved path that differs from the tracked one becomes
  the tracked file and the offset becomes the size of that file (zero when the size
  cannot be read), so the read that detects the file returns nothing of what it already
  holds. In EDAT.py such a path becomes the tracked file, the offset becomes zero and the
  pending line is cleared. In both, a resolved path equal to the tracked one leaves the
  state as it is.
\<close>

theorem journal_switch:
  "(find_latest_journal w = Some latest \<and> Some latest \<noteq> current_file st
      \<and> files w latest = Some text \<longrightarrow>
      switch_journal w latest st = st\<lparr>current_file := Some latest, last_position := length text\<rparr>
      \<and> read_new_lines w st =
          ([], st\<lparr>current_file := Some latest, last_position := length text\<rparr>))
   \<and> (Some latest \<noteq> current_file st \<and> files w latest = None \<longrightarrow>
      switch_journal w latest st = st\<lparr>current_file := Some latest, last_position := 0\<rparr>)
   \<and> (Some latest = current_file st \<longrightarrow> switch_journal w latest st = st)
   \<and> (sort_key (\<lambda>f. - snd f) fs = f # rest \<and> current_journal_path ts \<noteq> Some (fst f) \<longrightarrow>
      tracker_find_latest_journal (Some fs) ts =
        (Some (fst f), ts\<lparr>current_journal_path := Some (fst f), tracker_last_position := 0,
                            tracker_last_line := []\<rparr>))
   \<and> (sort_key (\<lambda>f. - snd f) fs = f # rest \<and> current_journal_path ts = Some (fst f) \<longrightarrow>
      tracker_find_latest_journal (Some fs) ts = (Some (fst f), ts))"
  by (simp add: switch_journal_def read_new_lines_def tracker_find_latest_journal_def Let_def)

theorem journal_switch_witness:
  "find_latest_journal dir_first = Some journal1
   \<and> Some journal1 \<noteq> current_file app_init
   \<and> files dir_first journal1 = Some (prospect_line @ [CR, LF])
   \<and> read_new_lines dir_first app_init =
       ([], app_init\<lparr>current_file := Some journal1,
                      last_position := length (prospect_line @ [CR, LF])\<rparr>)
   \<and> Some journal1 = current_file st_after_first
   \<and> switch_journal dir_first journal1 st_after_first = st_after_first
   \<and> sort_key (\<lambda>f. - snd f) [(journal1, 5 :: rat)] = (journal1, 5) # []
   \<and> current_journal_path tracker_init \<noteq> Some (fst (journal1, 5 :: rat))
   \<and> tracker_find_latest_journal (Some [(journal1, 5)]) tracker_init =
        (Some journal1,
         tracker_init\<lparr>current_journal_path := Some journal1, tracker_last_position := 0,
                       tracker_last_line := []\<rparr>)"
proof -
  have a: "find_latest_journal dir_first = Some journal1"
    by code_simp
  have b: "Some journal1 \<noteq> current_file app_init"
    by (simp add: app_init_def)
  have c: "files dir_first journal1 = Some (prospect_line @ [CR, LF])"
    by (simp add: dir_first_def)
  have d: "Some journal1 = current_file st_after_first"
    by (simp add: st_after_first_def)
  have e: "sort_key (\<lambda>f. - snd f) [(journal1, 5 :: rat)] = (journal1, 5) # []"
    by simp
  have f: "current_journal_path tracker_init \<noteq> Some (fst (journal1, 5 :: rat))"
    by (simp add: tracker_init_def)
  show ?thesis
    using journal_switch [of dir_first journal1 app_init "prospect_line @ [CR, LF]"
            "[(journal1, 5)]" "(journal1, 5)" "[]" tracker_init]
          journal_switch [of dir_first journal1 st_after_first "prospect_line @ [CR, LF]"
            "[(journal1, 5)]" "(journal1, 5)" "[]" tracker_init]
          a b c d e f
    by simp
qed

text \<open>
  In EDAT.py the first resolution of a journal of 137 characters sets the offset to zero,
  not to 137, and the read that follows returns the entry that the file already held.
\<close>

theorem journal_switch_counterexample:
  "current_journal_path tracker_init \<noteq> Some journal1
   \<and> tracker_last_position
        (snd (tracker_find_latest_journal (Some [(journal1, 5)]) tracker_init)) = 0
   \<and> length (prospect_line @ [CR, LF]) = 137
   \<and> fst (read_new_journal_entries (lib_of [(prospect_line, prospect_entry)])
             [journal1 \<mapsto> prospect_line @ [CR, LF]]
             (snd (tracker_find_latest_journal (Some [(journal1, 5)]) tracker_init)))
       = [prospect_entry]"
  by code_simp

subsection \<open>The order of the announcements\<close>

lemma worker_step_keeps:
  "spoken (worker_step t) @ filter (\<lambda>x. x \<noteq> []) (queue (worker_step t)) =
     spoken t @ filter (\<lambda>x. x \<noteq> []) (queue t)"
  by (cases "queue t") (simp_all add: worker_step_def)

lemma tts_run_keeps:
  "spoken (tts_run es t) @ filter (\<lambda>x. x \<noteq> []) (queue (tts_run es t)) =
     spoken t @ filter (\<lambda>x. x \<noteq> []) (queue t @ enqueued es)"
proof (induction es arbitrary: t)
  case Nil
  show ?case by simp
next
  case (Cons e es)
  show ?case
  proof (cases e)
    case (Speak msg)
    then show ?thesis
      using Cons.IH [of "speak msg t"] by (simp add: speak_def)
  next
    case Work
    then show ?thesis
      using Cons.IH [of "worker_step t"] worker_step_keeps [of t] by simp
  qed
qed

lemma thread_run_keeps:
  "mset (said (thread_run i st)) + mset (waiting (thread_run i st)) =
     mset (said st) + mset (waiting st)"
proof (cases "i < length (waiting st)")
  case True
  have "mset (waiting st) = mset (take i (waiting st) @ (waiting st ! i) # drop (Suc i) (waiting st))"
    using True by (simp add: id_take_nth_drop [symmetric])
  then show ?thesis
    using True by (simp add: thread_run_def)
next
  case False
  then show ?thesis by (simp add: thread_run_def)
qed

lemma tracker_run_keeps:
  "mset (said (tracker_run es st)) + mset (waiting (tracker_run es st)) =
     mset (said st) + mset (waiting st) + mset (requested es)"
proof (induction es arbitrary: st)
  case Nil
  show ?case by simp
next
  case (Cons e es)
  show ?case
  proof (cases e)
    case (SpeakText msg)
    then show ?thesis
      using Cons.IH [of "speak_text msg st"] by (simp add: speak_text_def)
  next
    case (ThreadRun i)
    then show ?thesis
      using Cons.IH [of "thread_run i st"] thread_run_keeps [of i st] by simp
  qed
qed

text \<open>
  C8, as amended. In app.py, under every interleaving of calls of \<^verbatim>\<open>speak\<close> and passes of
  the worker, the texts the worker has handed to the speech engine, followed by the
  non-empty texts still queued, are the non-empty texts enqueued, in the order of their
  enqueueing: nothing is reordered, repeated or dropped but an empty text, which the
  worker dequeues and skips. In EDAT.py every announcement has a thread of its own: each
  text requested is waiting or has been said, once, and the order in which the texts are
  said is the order in which the threads run.
\<close>

theorem announcements_order:
  "spoken (tts_run es t) @ filter (\<lambda>x. x \<noteq> []) (queue (tts_run es t)) =
     spoken t @ filter (\<lambda>x. x \<noteq> []) (queue t @ enqueued es)
   \<and> prefix (spoken (tts_run es tts_init)) (filter (\<lambda>x. x \<noteq> []) (enqueued es))
   \<and> mset (said (tracker_run sched ts)) + mset (waiting (tracker_run sched ts)) =
       mset (said ts) + mset (waiting ts) + mset (requested sched)"
proof -
  have "spoken (tts_run es tts_init) @ filter (\<lambda>x. x \<noteq> []) (queue (tts_run es tts_init)) =
          filter (\<lambda>x. x \<noteq> []) (enqueued es)"
    using tts_run_keeps [of es tts_init] by (simp add: tts_init_def)
  then have "prefix (spoken (tts_run es tts_init)) (filter (\<lambda>x. x \<noteq> []) (enqueued es))"
    by (metis prefixI)
  then show ?thesis
    using tts_run_keeps [of es t] tracker_run_keeps [of sched ts] by blast
qed

theorem announcements_order_witness:
  "enqueued [Speak ''Gold'', Work, Speak ''Platinum'', Speak ''Painite'', Work]
     = [''Gold'', ''Platinum'', ''Painite'']
   \<and> spoken (tts_run [Speak ''Gold'', Work, Speak ''Platinum'', Speak ''Painite'', Work] tts_init)
       = [''Gold'', ''Platinum'']
   \<and> queue (tts_run [Speak ''Gold'', Work, Speak ''Platinum'', Speak ''Painite'', Work] tts_init)
       = [''Painite'']
   \<and> prefix (spoken (tts_run [Speak ''Gold'', Work, Speak ''Platinum'', Speak ''Painite'', Work]
                tts_init)) [''Gold'', ''Platinum'', ''Painite'']"
proof -
  let ?es = "[Speak ''Gold'', Work, Speak ''Platinum'', Speak ''Painite'', Work]"
  have a: "enqueued ?es = [''Gold'', ''Platinum'', ''Painite'']" by simp
  have b: "spoken (tts_run ?es tts_init) = [''Gold'', ''Platinum'']"
    by (simp add: tts_init_def speak_def worker_step_def)
  have c: "queue (tts_run ?es tts_init) = [''Painite'']"
    by (simp add: tts_init_def speak_def worker_step_def)
  have "prefix (spoken (tts_run ?es tts_init)) (filter (\<lambda>x. x \<noteq> []) (enqueued ?es))"
    using announcements_order [of ?es] by blast
  then have d: "prefix (spoken (tts_run ?es tts_init)) [''Gold'', ''Platinum'', ''Painite'']"
    unfolding a by simp
  show ?thesis using a b c d by blast
qed

text \<open>
  In EDAT.py the thread started second may reach the engine first; in app.py an empty
  text is enqueued and never spoken.
\<close>

theorem announcements_order_counterexample:
  "requested [SpeakText ''Gold'', SpeakText ''Platinum'', ThreadRun 1, ThreadRun 0]
     = [''Gold'', ''Platinum'']
   \<and> said (tracker_run [SpeakText ''Gold'', SpeakText ''Platinum'', ThreadRun 1, ThreadRun 0]
             tracker_init) = [''Platinum'', ''Gold'']
   \<and> enqueued [Speak [], Speak ''Gold'', Work, Work] = [[], ''Gold'']
   \<and> spoken (tts_run [Speak [], Speak ''Gold'', Work, Work] tts_init) = [''Gold'']
   \<and> queue (tts_run [Speak [], Speak ''Gold'', Work, Work] tts_init) = []"
  by (simp add: tracker_init_def tts_init_def speak_text_def thread_run_def speak_def worker_step_def)

subsection \<open>The material loops on well-typed materials\<close>

lemma wt_materialE:
  assumes "wt_material m" and "is_number dflt"
  obtains kvs s where "m = JObj kvs" and "dict_get kvs ''Name'' (JStr []) = JStr s"
    and "is_number (dict_get kvs ''Proportion'' dflt)"
proof -
  from assms(1) obtain kvs where m: "m = JObj kvs"
    by (cases m) (simp_all add: wt_material_def)
  have n: "\<exists>s. dict_get kvs ''Name'' (JStr []) = JStr s"
  proof (cases "map_of kvs ''Name''")
    case None
    then show ?thesis by (simp add: dict_get_def)
  next
    case (Some v)
    then have "is_str v" using assms(1) m by (simp add: wt_material_def)
    then show ?thesis using Some by (cases v) (simp_all add: dict_get_def)
  qed
  have p: "is_number (dict_get kvs ''Proportion'' dflt)"
    using assms m by (cases "map_of kvs ''Proportion''") (simp_all add: wt_material_def dict_get_def)
  from m n p that show thesis by blast
qed

lemma is_number_num_val: "is_number v \<Longrightarrow> \<exists>p. num_val v = Some p"
  by (cases v) simp_all

lemma tracker_state_stats_only:
  "st\<lparr>stats := rows, waiting := waiting st\<rparr> = st\<lparr>stats := rows\<rparr>"
  by (cases st) simp

lemma scan_materials_typed:
  assumes "list_all wt_material mats"
  shows "scan_materials lib target entry remaining mats st =
           ((case find (meets_target target) mats of
               None \<Rightarrow> False
             | Some m \<Rightarrow> tracker_announcements lib m \<noteq> []),
            after_scan lib target entry remaining mats st)"
  using assms
proof (induction mats)
  case Nil
  show ?case by (simp add: after_scan_def)
next
  case (Cons m mats)
  then have wt: "wt_material m" and rest: "list_all wt_material mats"
    by simp_all
  obtain kvs s where m: "m = JObj kvs" and n: "dict_get kvs ''Name'' (JStr []) = JStr s"
    and p: "is_number (dict_get kvs ''Proportion'' (JFloat (Finite 0)))"
    using wt wt_materialE [of m "JFloat (Finite 0)"] by auto
  obtain q where q: "num_val (dict_get kvs ''Proportion'' (JFloat (Finite 0))) = Some q"
    using is_number_num_val [OF p] by blast
  show ?case
  proof (cases "target s")
    case None
    then have "\<not> meets_target target m"
      using m n by (simp add: meets_target_def material_name_def)
    then show ?thesis
      using Cons.IH [OF rest] m n None by (simp add: Let_def after_scan_def)
  next
    case (Some t)
    show ?thesis
    proof (cases "py_ge q (Finite t)")
      case True
      then have mt: "meets_target target m"
        using m n q Some by (simp add: meets_target_def material_name_def material_proportion_def)
      show ?thesis
      proof (cases "round_number (dict_get kvs ''Proportion'' (JFloat (Finite 0)))")
        case None
        then show ?thesis
          using m n q Some True mt
          by (simp add: Let_def tracker_announcements_def tracker_row_def record_asteroid_def
                after_scan_def material_name_def material_proportion_def
                tracker_state_stats_only)
      next
        case (Some r)
        then show ?thesis
          using m n q \<open>target s = Some t\<close> True mt
          by (simp add: Let_def tracker_announcements_def tracker_message_def tracker_row_def
                record_asteroid_def speak_text_def after_scan_def material_name_def
                material_proportion_def)
      qed
    next
      case False
      then have "\<not> meets_target target m"
        using m n q Some by (simp add: meets_target_def material_name_def material_proportion_def)
      then show ?thesis
        using Cons.IH [OF rest] m n q Some False by (simp add: Let_def after_scan_def)
    qed
  qed
qed

lemma process_asteroid_typed:
  assumes "dict_get kvs ''event'' JNull = JStr ''ProspectedAsteroid''"
    and "num_val (dict_get kvs ''Remaining'' (JInt 0)) = Some r"
    and "dict_get kvs ''Materials'' (JArr []) = JArr mats"
    and "list_all wt_material mats"
  shows "process_asteroid lib target (JObj kvs) st =
           (if py_less r (Finite 100) then (None, st)
            else (Some (case find (meets_target target) mats of
                          None \<Rightarrow> False
                        | Some m \<Rightarrow> tracker_announcements lib m \<noteq> []),
                  after_scan lib target kvs (dict_get kvs ''Remaining'' (JInt 0)) mats st))"
  using assms scan_materials_typed [OF assms(4), of lib target kvs "dict_get kvs ''Remaining'' (JInt 0)" st]
  by (simp add: process_asteroid_def Let_def)

lemma py_int_number:
  "is_number v \<Longrightarrow> py_int lib v = (if is_finite_number v then Some (percent_of v) else None)"
proof (cases v)
  case (JFloat x)
  then show ?thesis by (cases x) simp_all
qed simp_all

lemma after_materials_Nil: "after_materials lib thr timestamp [] st = st"
  by (simp add: after_materials_def)

lemma strict_materials_typed:
  assumes "list_all wt_material mats"
  shows "strict_materials lib thr timestamp mats st =
           (list_all app_readable mats,
            after_materials lib thr timestamp (takeWhile app_readable mats) st)"
  using assms
proof (induction mats arbitrary: st)
  case Nil
  show ?case by (simp add: after_materials_Nil)
next
  case (Cons m mats)
  then have wt: "wt_material m" and rest: "list_all wt_material mats"
    by simp_all
  obtain kvs s where m: "m = JObj kvs" and n: "dict_get kvs ''Name'' (JStr []) = JStr s"
    and p: "is_number (dict_get kvs ''Proportion'' (JInt 0))"
    using wt wt_materialE [of m "JInt 0"] by auto
  note pi = py_int_number [OF p, of lib]
  have fp: "finite_proportion m = is_finite_number (dict_get kvs ''Proportion'' (JInt 0))"
    using m by (simp add: finite_proportion_def material_proportion_def)
  show ?case
  proof (cases "s = []")
    case True
    then have "\<not> named m" and "\<not> meets_threshold thr m"
      using m n by (simp_all add: named_def meets_threshold_def material_name_def)
    then show ?thesis
      using Cons.IH [OF rest, of st] m n True
      by (simp add: Let_def after_materials_def app_readable_def)
  next
    case False
    then have nm: "named m"
      using m n by (simp add: named_def material_name_def)
    show ?thesis
    proof (cases "finite_proportion m")
      case nf: False
      then have "\<not> app_readable m"
        using nm by (simp add: app_readable_def)
      then show ?thesis
        using m n False pi nf fp by (simp add: Let_def after_materials_Nil)
    next
      case fin: True
      then have rd: "app_readable m"
        by (simp add: app_readable_def)
      have pi': "py_int lib (dict_get kvs ''Proportion'' (JInt 0)) =
                   Some (percent_of (dict_get kvs ''Proportion'' (JInt 0)))"
        using pi fin fp by simp
      show ?thesis
      proof (cases "meets_threshold thr m")
        case True
        then obtain t where t: "thr s = Some t"
          and le: "t \<le> of_int (percent_of (dict_get kvs ''Proportion'' (JInt 0)))"
          using m n by (auto simp: meets_threshold_def material_name_def material_proportion_def
                             split: option.splits)
        let ?st1 = "add_material timestamp (JStr s) (percent_of (dict_get kvs ''Proportion'' (JInt 0)))
                      (app_speak (s @ '' found at '' @
                         str_int (percent_of (dict_get kvs ''Proportion'' (JInt 0))) @ '' percent'') st)"
        have "strict_materials lib thr timestamp (m # mats) st =
                strict_materials lib thr timestamp mats ?st1"
          using m n False pi' t le by (simp add: Let_def)
        also have "\<dots> = (list_all app_readable mats,
                         after_materials lib thr timestamp (takeWhile app_readable mats) ?st1)"
          using Cons.IH [OF rest] .
        also have "after_materials lib thr timestamp (takeWhile app_readable mats) ?st1 =
                     after_materials lib thr timestamp (takeWhile app_readable (m # mats)) st"
          using True nm rd m n
          by (simp add: after_materials_def add_material_def app_speak_def speak_def
                app_message_def app_row_def material_name_def material_proportion_def)
        finally show ?thesis using rd by simp
      next
        case no: False
        let ?st1 = "add_material timestamp (JStr s) (percent_of (dict_get kvs ''Proportion'' (JInt 0))) st"
        have "strict_materials lib thr timestamp (m # mats) st =
                strict_materials lib thr timestamp mats ?st1"
          using m n False pi' no
          by (auto simp: Let_def meets_threshold_def material_name_def material_proportion_def
                   split: option.splits)
        also have "\<dots> = (list_all app_readable mats,
                         after_materials lib thr timestamp (takeWhile app_readable mats) ?st1)"
          using Cons.IH [OF rest] .
        also have "after_materials lib thr timestamp (takeWhile app_readable mats) ?st1 =
                     after_materials lib thr timestamp (takeWhile app_readable (m # mats)) st"
          using no nm rd m n
          by (simp add: after_materials_def add_material_def
                app_row_def material_name_def material_proportion_def)
        finally show ?thesis using rd by simp
      qed
    qed
  qed
qed

lemma takeWhile_finite:
  "list_all finite_proportion mats \<Longrightarrow> takeWhile app_readable mats = mats"
  by (induction mats) (simp_all add: app_readable_def)

lemma regex_materials_strict:
  "regex_materials lib thr timestamp mats st = strict_materials lib thr timestamp mats st"
  by (induction mats arbitrary: st) (simp_all add: Let_def split: json.splits option.splits)

lemma mining_strict_typed:
  assumes "dict_get kvs ''event'' JNull = JStr ''ProspectedAsteroid''"
    and "dict_get kvs ''Materials'' (JArr []) = JArr mats"
    and "mats \<noteq> []"
    and "list_all wt_material mats"
  shows "mining_strict lib thr (JObj kvs) st =
           (list_all app_readable mats,
            after_materials lib thr (dict_get kvs ''timestamp'' (JStr (now_iso lib)))
              (takeWhile app_readable mats) st)"
  using assms(1-3) strict_materials_typed [OF assms(4)]
  by (simp add: mining_strict_def Let_def)


lemma mining_strict_typed_any:
  assumes "dict_get kvs ''event'' JNull = JStr ''ProspectedAsteroid''"
    and "dict_get kvs ''Materials'' (JArr []) = JArr mats"
    and "list_all wt_material mats"
  shows "snd (mining_strict lib thr (JObj kvs) st) =
           after_materials lib thr (dict_get kvs ''timestamp'' (JStr (now_iso lib)))
             (takeWhile app_readable mats) st"
proof (cases "mats = []")
  case True
  then show ?thesis
    using assms(1,2) by (simp add: mining_strict_def Let_def after_materials_Nil)
next
  case False
  then show ?thesis
    using mining_strict_typed [OF assms(1,2) False assms(3)] by simp
qed

lemma handle_mining_decoded:
  assumes "contains event_prospected line" and "json_loads lib line = Some data"
  shows "handle_mining lib thr line st = mining_strict lib thr data st"
  using assms by (simp add: handle_mining_def)

lemma handle_mining_typed:
  assumes "contains event_prospected line" and "json_loads lib line = Some (JObj kvs)"
    and "dict_get kvs ''event'' JNull = JStr ''ProspectedAsteroid''"
    and "dict_get kvs ''Materials'' (JArr []) = JArr mats"
    and "list_all wt_material mats"
  shows "snd (handle_mining lib thr line st) =
           after_materials lib thr (dict_get kvs ''timestamp'' (JStr (now_iso lib)))
             (takeWhile app_readable mats) st"
  using handle_mining_decoded [OF assms(1,2)] mining_strict_typed_any [OF assms(3-5)]
  by simp

lemma speak_text_waiting: "waiting (speak_text msg st) = waiting st @ [msg]"
  by (simp add: speak_text_def)


lemma scan_materials_grows:
  "\<exists>rows msgs.
      stats (snd (scan_materials lib target entry remaining mats st)) = stats st @ rows
      \<and> waiting (snd (scan_materials lib target entry remaining mats st)) = waiting st @ msgs
      \<and> length msgs \<le> length rows \<and> length rows \<le> 1"
proof (induction mats)
  case Nil
  show ?case by simp
next
  case (Cons m mats)
  have one: "\<exists>rows msgs. a @ [r] = a @ rows \<and> b = b @ msgs
               \<and> length msgs \<le> length rows \<and> length rows \<le> 1"
    for a :: "stat_row list" and r and b :: "string list"
    by (rule exI [of _ "[r]"], rule exI [of _ "[]"]) simp
  have two: "\<exists>rows msgs. a @ [r] = a @ rows \<and> b @ [x] = b @ msgs
               \<and> length msgs \<le> length rows \<and> length rows \<le> 1"
    for a :: "stat_row list" and r and b :: "string list" and x
    by (rule exI [of _ "[r]"], rule exI [of _ "[x]"]) simp
  have none: "\<exists>rows msgs. a = a @ rows \<and> b = b @ msgs
               \<and> length msgs \<le> length rows \<and> length rows \<le> 1"
    for a :: "stat_row list" and b :: "string list"
    by (rule exI [of _ "[]"], rule exI [of _ "[]"]) simp
  show ?case
    using Cons one two none
    by (simp add: Let_def speak_text_def record_asteroid_def split: json.splits option.splits)
qed

lemma process_asteroid_grows:
  "\<exists>rows msgs.
      stats (snd (process_asteroid lib target entry st)) = stats st @ rows
      \<and> waiting (snd (process_asteroid lib target entry st)) = waiting st @ msgs
      \<and> length msgs \<le> length rows \<and> length rows \<le> 1"
proof -
  have none: "\<exists>rows msgs. stats st = stats st @ rows \<and> waiting st = waiting st @ msgs
               \<and> length msgs \<le> length rows \<and> length rows \<le> 1"
    by (rule exI [of _ "[]"], rule exI [of _ "[]"]) simp
  show ?thesis
  proof (cases entry)
    case (JObj kvs)
    show ?thesis
    proof (cases "py_iter (dict_get kvs ''Materials'' (JArr []))")
      case None
      then show ?thesis
        using JObj none by (simp add: process_asteroid_def Let_def split: option.splits)
    next
      case (Some mats)
      show ?thesis
        using JObj Some none
          scan_materials_grows [of lib target kvs "dict_get kvs ''Remaining'' (JInt 0)" mats st]
        by (cases "scan_materials lib target kvs (dict_get kvs ''Remaining'' (JInt 0)) mats st")
           (simp add: process_asteroid_def Let_def split: option.splits)
    qed
  qed (simp_all add: process_asteroid_def none)
qed

lemma handle_message_keeps_rows: "mining_data (snd (handle_message lib line st)) = mining_data st"
proof -
  have s: "mining_data (snd (message_strict lib data st)) = mining_data st" for data
    by (auto simp: message_strict_def app_speak_def Let_def split: json.splits)
  have f: "mining_data (snd (message_fallback line st)) = mining_data st"
    by (auto simp: message_fallback_def app_speak_def split: option.splits)
  show ?thesis
    using s f by (simp add: handle_message_def split: option.splits)
qed





lemma waiting_after_scan:
  "waiting (after_scan lib target entry remaining mats st) =
     waiting st @ (case find (meets_target target) mats of
                     None \<Rightarrow> []
                   | Some m \<Rightarrow> tracker_announcements lib m)"
  by (simp add: after_scan_def split: option.splits)

lemma stats_after_scan:
  "stats (after_scan lib target entry remaining mats st) =
     stats st @ (case find (meets_target target) mats of
                   None \<Rightarrow> []
                 | Some m \<Rightarrow> [tracker_row lib entry remaining m])"
  by (simp add: after_scan_def split: option.splits)



subsection \<open>The gate on the remaining content\<close>




subsection \<open>Announcements for one event\<close>

text \<open>
  C4, as amended. EDAT.py produces at most one announcement for an event: on well-typed
  materials that pass the gate it scans them in list order and stops at the first that
  meets its threshold, which it announces unless \<^verbatim>\<open>round\<close> raises on its proportion (an
  infinity); it announces none after it. app.py has no early exit: for the line of an event
  with well-typed materials it announces every material that meets its threshold, in list
  order, up to the first named material whose proportion is not finite, where \<^verbatim>\<open>int\<close>
  raises; with finite proportions that is every material of the list that meets its
  threshold.
\<close>

theorem announcements_per_event:
  "length (waiting (snd (process_asteroid lib target entry st))) \<le> Suc (length (waiting st))
   \<and> (dict_get kvs ''event'' JNull = JStr ''ProspectedAsteroid''
        \<and> num_val (dict_get kvs ''Remaining'' (JInt 0)) = Some r \<and> \<not> py_less r (Finite 100)
        \<and> dict_get kvs ''Materials'' (JArr []) = JArr mats
        \<and> list_all wt_material mats \<longrightarrow>
        waiting (snd (process_asteroid lib target (JObj kvs) st)) =
          waiting st @ (case find (meets_target target) mats of
                          None \<Rightarrow> []
                        | Some m \<Rightarrow> tracker_announcements lib m))
   \<and> (contains event_prospected line \<and> json_loads lib line = Some (JObj kvs)
        \<and> dict_get kvs ''event'' JNull = JStr ''ProspectedAsteroid''
        \<and> dict_get kvs ''Materials'' (JArr []) = JArr mats
        \<and> list_all wt_material mats \<longrightarrow>
        queue (tts (snd (handle_mining lib thr line ast))) =
          queue (tts ast) @
          map (app_message lib) (filter (meets_threshold thr) (takeWhile app_readable mats)))
   \<and> (list_all finite_proportion mats \<longrightarrow> takeWhile app_readable mats = mats)"
proof (intro conjI impI)
  show "length (waiting (snd (process_asteroid lib target entry st))) \<le> Suc (length (waiting st))"
    using process_asteroid_grows [of lib target entry st] by auto
next
  assume h: "dict_get kvs ''event'' JNull = JStr ''ProspectedAsteroid''
        \<and> num_val (dict_get kvs ''Remaining'' (JInt 0)) = Some r \<and> \<not> py_less r (Finite 100)
        \<and> dict_get kvs ''Materials'' (JArr []) = JArr mats
        \<and> list_all wt_material mats"
  then have "process_asteroid lib target (JObj kvs) st =
           (if py_less r (Finite 100) then (None, st)
            else (Some (case find (meets_target target) mats of
                          None \<Rightarrow> False
                        | Some m \<Rightarrow> tracker_announcements lib m \<noteq> []),
                  after_scan lib target kvs (dict_get kvs ''Remaining'' (JInt 0)) mats st))"
    using process_asteroid_typed [of kvs r mats lib target st] by blast
  then show "waiting (snd (process_asteroid lib target (JObj kvs) st)) =
          waiting st @ (case find (meets_target target) mats of
                          None \<Rightarrow> []
                        | Some m \<Rightarrow> tracker_announcements lib m)"
    using h by (simp add: waiting_after_scan)
next
  assume "contains event_prospected line \<and> json_loads lib line = Some (JObj kvs)
        \<and> dict_get kvs ''event'' JNull = JStr ''ProspectedAsteroid''
        \<and> dict_get kvs ''Materials'' (JArr []) = JArr mats
        \<and> list_all wt_material mats"
  then have "snd (handle_mining lib thr line ast) =
           after_materials lib thr (dict_get kvs ''timestamp'' (JStr (now_iso lib)))
             (takeWhile app_readable mats) ast"
    using handle_mining_typed [of line lib kvs mats thr ast] by blast
  then show "queue (tts (snd (handle_mining lib thr line ast))) =
          queue (tts ast) @
          map (app_message lib) (filter (meets_threshold thr) (takeWhile app_readable mats))"
    by (simp add: after_materials_def)
next
  assume "list_all finite_proportion mats"
  then show "takeWhile app_readable mats = mats"
    by (rule takeWhile_finite)
qed

theorem announcements_per_event_witness:
  "dict_get two_items ''event'' JNull = JStr ''ProspectedAsteroid''
   \<and> num_val (dict_get two_items ''Remaining'' (JInt 0)) = Some (Finite 100)
   \<and> \<not> py_less (Finite 100) (Finite 100)
   \<and> dict_get two_items ''Materials'' (JArr []) =
       JArr [JObj [(''Name'', JStr ''Platinum''), (''Proportion'', JFloat (Finite 55))],
             JObj [(''Name'', JStr ''Painite''), (''Proportion'', JFloat (Finite 40))]]
   \<and> list_all wt_material [JObj [(''Name'', JStr ''Platinum''), (''Proportion'', JFloat (Finite 55))],
                 JObj [(''Name'', JStr ''Painite''), (''Proportion'', JFloat (Finite 40))]]
   \<and> list_all finite_proportion
       [JObj [(''Name'', JStr ''Platinum''), (''Proportion'', JFloat (Finite 55))],
        JObj [(''Name'', JStr ''Painite''), (''Proportion'', JFloat (Finite 40))]]
   \<and> contains event_prospected two_line
   \<and> json_loads (lib_of [(two_line, JObj two_items)]) two_line = Some (JObj two_items)
   \<and> waiting (snd (process_asteroid (lib_of [(two_line, JObj two_items)]) thresholds_two
                     (JObj two_items) tracker_init)) =
       [''Platinum asteroid found with 55 percent content'']
   \<and> queue (tts (snd (handle_mining (lib_of [(two_line, JObj two_items)]) thresholds_two two_line
                        app_init))) =
       map (app_message (lib_of [(two_line, JObj two_items)]))
         (filter (meets_threshold thresholds_two)
            [JObj [(''Name'', JStr ''Platinum''), (''Proportion'', JFloat (Finite 55))],
             JObj [(''Name'', JStr ''Painite''), (''Proportion'', JFloat (Finite 40))]])"
proof -
  let ?mats = "[JObj [(''Name'', JStr ''Platinum''), (''Proportion'', JFloat (Finite 55))],
                JObj [(''Name'', JStr ''Painite''), (''Proportion'', JFloat (Finite 40))]]"
  let ?lib = "lib_of [(two_line, JObj two_items)]"
  have a: "dict_get two_items ''event'' JNull = JStr ''ProspectedAsteroid''"
    by (simp add: two_items_def dict_get_def)
  have b: "num_val (dict_get two_items ''Remaining'' (JInt 0)) = Some (Finite 100)"
    by (simp add: two_items_def dict_get_def)
  have b': "\<not> py_less (Finite 100) (Finite 100)"
    by simp
  have c: "dict_get two_items ''Materials'' (JArr []) = JArr ?mats"
    by (simp add: two_items_def dict_get_def)
  have d: "list_all wt_material ?mats"
    by (simp add: wt_material_def)
  have d': "list_all finite_proportion ?mats"
    by (simp add: finite_proportion_def material_proportion_def dict_get_def)
  have l1: "contains event_prospected two_line"
    by code_simp
  have l2: "json_loads ?lib two_line = Some (JObj two_items)"
    by code_simp
  have e: "waiting tracker_init @ (case find (meets_target thresholds_two) ?mats of
                          None \<Rightarrow> []
                        | Some m \<Rightarrow> tracker_announcements ?lib m) =
             [''Platinum asteroid found with 55 percent content'']"
    by code_simp
  have f: "queue (tts app_init) = []"
    by code_simp
  note inst = announcements_per_event [of ?lib thresholds_two "JObj two_items" tracker_init
      two_items "Finite 100" ?mats two_line thresholds_two app_init]
  from inst a b b' c d
  have "waiting (snd (process_asteroid ?lib thresholds_two (JObj two_items) tracker_init)) =
          waiting tracker_init @ (case find (meets_target thresholds_two) ?mats of
                          None \<Rightarrow> []
                        | Some m \<Rightarrow> tracker_announcements ?lib m)"
    by blast
  then have g: "waiting (snd (process_asteroid ?lib thresholds_two (JObj two_items) tracker_init)) =
                  [''Platinum asteroid found with 55 percent content'']"
    unfolding e .
  from inst d' have tw: "takeWhile app_readable ?mats = ?mats"
    by blast
  from inst l1 l2 a c d
  have "queue (tts (snd (handle_mining ?lib thresholds_two two_line app_init))) =
          queue (tts app_init) @
          map (app_message ?lib) (filter (meets_threshold thresholds_two) (takeWhile app_readable ?mats))"
    by blast
  then have h: "queue (tts (snd (handle_mining ?lib thresholds_two two_line app_init))) =
          map (app_message ?lib) (filter (meets_threshold thresholds_two) ?mats)"
    unfolding tw f by simp
  from a b b' c d d' l1 l2 g h show ?thesis by blast
qed

text \<open>
  In app.py an event with two materials above their thresholds gives two announcements.
  Where the first proportion is \<^verbatim>\<open>1e999\<close>, app.py leaves the loop at that material and does
  not announce the platinum that follows it, and EDAT.py, whose first qualifying material
  is the gold, announces nothing.
\<close>

theorem announcements_per_event_counterexample:
  "json_loads (lib_of [(two_line, JObj two_items)]) two_line = Some (JObj two_items)
   \<and> queue (tts (snd (handle_mining (lib_of [(two_line, JObj two_items)]) thresholds_two two_line
                        app_init))) =
       [''Platinum found at 55 percent'', ''Painite found at 40 percent'']
   \<and> json_loads (lib_of [(inf_line, JObj inf_items)]) inf_line = Some (JObj inf_items)
   \<and> meets_threshold thresholds_two
       (JObj [(''Name'', JStr ''Platinum''), (''Proportion'', JFloat (Finite 55))])
   \<and> handle_mining (lib_of [(inf_line, JObj inf_items)]) thresholds_two inf_line app_init =
       (False, app_init)
   \<and> waiting (snd (process_asteroid (lib_of [(inf_line, JObj inf_items)]) target_materials
                     (JObj inf_items) tracker_init)) = []"
  by code_simp

subsection \<open>What is stored\<close>

text \<open>
  C5, as amended. For the line of a prospecting event with well-typed materials, app.py
  stores a row for every named material up to the first named material whose proportion
  is not finite (every named material when the proportions are finite), whatever the
  thresholds are and whether or not it announces. EDAT.py records a row exactly when the
  event passes the gate and some material meets its threshold: one row, for the first such
  material, and the announcement, if \<^verbatim>\<open>round\<close> does not raise, is for that material. On
  every entry EDAT.py adds at most one row and no announcement without a row. Chat messages
  and other events are never stored: the chat handler of app.py leaves the stored rows as
  they are, and so does the handling of a line that decodes to a record of another event.
\<close>

theorem storage_of_observations:
  "(contains event_prospected line \<and> json_loads lib line = Some (JObj kvs)
        \<and> dict_get kvs ''event'' JNull = JStr ''ProspectedAsteroid''
        \<and> dict_get kvs ''Materials'' (JArr []) = JArr mats
        \<and> list_all wt_material mats \<longrightarrow>
        mining_data (snd (handle_mining lib thr line ast)) =
          mining_data ast @
          map (app_row (dict_get kvs ''timestamp'' (JStr (now_iso lib))))
            (filter named (takeWhile app_readable mats)))
   \<and> (list_all finite_proportion mats \<longrightarrow> takeWhile app_readable mats = mats)
   \<and> (dict_get kvs ''event'' JNull = JStr ''ProspectedAsteroid''
        \<and> num_val (dict_get kvs ''Remaining'' (JInt 0)) = Some r
        \<and> dict_get kvs ''Materials'' (JArr []) = JArr mats
        \<and> list_all wt_material mats \<longrightarrow>
        stats (snd (process_asteroid lib target (JObj kvs) st)) =
          stats st @
          (if py_less r (Finite 100) then []
           else case find (meets_target target) mats of
                  None \<Rightarrow> []
                | Some m \<Rightarrow> [tracker_row lib kvs (dict_get kvs ''Remaining'' (JInt 0)) m])
        \<and> waiting (snd (process_asteroid lib target (JObj kvs) st)) =
            waiting st @
            (if py_less r (Finite 100) then []
             else case find (meets_target target) mats of
                    None \<Rightarrow> []
                  | Some m \<Rightarrow> tracker_announcements lib m))
   \<and> (\<exists>rows msgs.
         stats (snd (process_asteroid lib target entry st)) = stats st @ rows
         \<and> waiting (snd (process_asteroid lib target entry st)) = waiting st @ msgs
         \<and> length msgs \<le> length rows \<and> length rows \<le> 1)
   \<and> mining_data (snd (handle_message lib cline ast)) = mining_data ast
   \<and> (json_loads lib oline = Some (JObj okvs)
        \<and> dict_get okvs ''event'' JNull \<noteq> JStr ''ProspectedAsteroid'' \<longrightarrow>
        mining_data (snd (process_line lib thr oline ast)) = mining_data ast)"
proof (intro conjI impI)
  assume "contains event_prospected line \<and> json_loads lib line = Some (JObj kvs)
        \<and> dict_get kvs ''event'' JNull = JStr ''ProspectedAsteroid''
        \<and> dict_get kvs ''Materials'' (JArr []) = JArr mats
        \<and> list_all wt_material mats"
  then have "snd (handle_mining lib thr line ast) =
           after_materials lib thr (dict_get kvs ''timestamp'' (JStr (now_iso lib)))
             (takeWhile app_readable mats) ast"
    using handle_mining_typed [of line lib kvs mats thr ast] by blast
  then show "mining_data (snd (handle_mining lib thr line ast)) =
          mining_data ast @
          map (app_row (dict_get kvs ''timestamp'' (JStr (now_iso lib))))
            (filter named (takeWhile app_readable mats))"
    by (simp add: after_materials_def)
next
  assume "list_all finite_proportion mats"
  then show "takeWhile app_readable mats = mats"
    by (rule takeWhile_finite)
next
  assume h: "dict_get kvs ''event'' JNull = JStr ''ProspectedAsteroid''
        \<and> num_val (dict_get kvs ''Remaining'' (JInt 0)) = Some r
        \<and> dict_get kvs ''Materials'' (JArr []) = JArr mats
        \<and> list_all wt_material mats"
  then have p: "process_asteroid lib target (JObj kvs) st =
           (if py_less r (Finite 100) then (None, st)
            else (Some (case find (meets_target target) mats of
                          None \<Rightarrow> False
                        | Some m \<Rightarrow> tracker_announcements lib m \<noteq> []),
                  after_scan lib target kvs (dict_get kvs ''Remaining'' (JInt 0)) mats st))"
    using process_asteroid_typed [of kvs r mats lib target st] by blast
  show "stats (snd (process_asteroid lib target (JObj kvs) st)) =
          stats st @
          (if py_less r (Finite 100) then []
           else case find (meets_target target) mats of
                  None \<Rightarrow> []
                | Some m \<Rightarrow> [tracker_row lib kvs (dict_get kvs ''Remaining'' (JInt 0)) m])"
    unfolding p by (simp add: stats_after_scan)
  show "waiting (snd (process_asteroid lib target (JObj kvs) st)) =
            waiting st @
            (if py_less r (Finite 100) then []
             else case find (meets_target target) mats of
                    None \<Rightarrow> []
                  | Some m \<Rightarrow> tracker_announcements lib m)"
    unfolding p by (simp add: waiting_after_scan)
next
  show "\<exists>rows msgs.
         stats (snd (process_asteroid lib target entry st)) = stats st @ rows
         \<and> waiting (snd (process_asteroid lib target entry st)) = waiting st @ msgs
         \<and> length msgs \<le> length rows \<and> length rows \<le> 1"
    by (rule process_asteroid_grows)
next
  show "mining_data (snd (handle_message lib cline ast)) = mining_data ast"
    by (rule handle_message_keeps_rows)
next
  assume "json_loads lib oline = Some (JObj okvs)
        \<and> dict_get okvs ''event'' JNull \<noteq> JStr ''ProspectedAsteroid''"
  then have "handle_mining lib thr oline ast = (False, ast)"
    by (simp add: handle_mining_def mining_strict_def)
  then show "mining_data (snd (process_line lib thr oline ast)) = mining_data ast"
    using handle_message_keeps_rows [of lib oline ast] by (simp add: process_line_def)
qed

theorem storage_of_observations_witness:
  "contains event_prospected poor_line
   \<and> json_loads (lib_of [(poor_line, JObj poor_items), (squadron_line, JObj squadron_items)])
       poor_line = Some (JObj poor_items)
   \<and> dict_get poor_items ''event'' JNull = JStr ''ProspectedAsteroid''
   \<and> num_val (dict_get poor_items ''Remaining'' (JInt 0)) = Some (Finite 100)
   \<and> dict_get poor_items ''Materials'' (JArr []) =
       JArr [JObj [(''Name'', JStr ''Platinum''), (''Proportion'', JFloat (Finite 10))]]
   \<and> list_all wt_material [JObj [(''Name'', JStr ''Platinum''), (''Proportion'', JFloat (Finite 10))]]
   \<and> list_all finite_proportion
       [JObj [(''Name'', JStr ''Platinum''), (''Proportion'', JFloat (Finite 10))]]
   \<and> mining_data (snd (handle_mining
        (lib_of [(poor_line, JObj poor_items), (squadron_line, JObj squadron_items)])
        [''Platinum'' \<mapsto> 30] poor_line app_init)) =
       [(JStr ''2024-01-01T00:00:00Z'', JStr ''Platinum'', 10)]
   \<and> queue (tts (snd (handle_mining
        (lib_of [(poor_line, JObj poor_items), (squadron_line, JObj squadron_items)])
        [''Platinum'' \<mapsto> 30] poor_line app_init))) = []
   \<and> stats (snd (process_asteroid
        (lib_of [(poor_line, JObj poor_items), (squadron_line, JObj squadron_items)])
        [''Platinum'' \<mapsto> 10] (JObj poor_items) tracker_init)) =
       [\<lparr>row_timestamp = JStr ''2024-01-01T00:00:00Z'', row_material = JStr ''Platinum'',
         row_proportion = JFloat (Finite 10), row_motherlode = False,
         row_content_type = JStr ''Unknown'', row_remaining = JFloat (Finite 100)\<rparr>]
   \<and> waiting (snd (process_asteroid
        (lib_of [(poor_line, JObj poor_items), (squadron_line, JObj squadron_items)])
        [''Platinum'' \<mapsto> 10] (JObj poor_items) tracker_init)) =
       [''Platinum asteroid found with 10 percent content'']
   \<and> json_loads (lib_of [(poor_line, JObj poor_items), (squadron_line, JObj squadron_items)])
       squadron_line = Some (JObj squadron_items)
   \<and> dict_get squadron_items ''event'' JNull \<noteq> JStr ''ProspectedAsteroid''
   \<and> mining_data (snd (process_line
        (lib_of [(poor_line, JObj poor_items), (squadron_line, JObj squadron_items)])
        [''Platinum'' \<mapsto> 30] squadron_line app_init)) = []
   \<and> queue (tts (snd (process_line
        (lib_of [(poor_line, JObj poor_items), (squadron_line, JObj squadron_items)])
        [''Platinum'' \<mapsto> 30] squadron_line app_init))) =
       [''message from squadron member Bob saying: hello'']"
proof -
  let ?mats = "[JObj [(''Name'', JStr ''Platinum''), (''Proportion'', JFloat (Finite 10))]]"
  let ?lib = "lib_of [(poor_line, JObj poor_items), (squadron_line, JObj squadron_items)]"
  have l1: "contains event_prospected poor_line"
    by code_simp
  have l2: "json_loads ?lib poor_line = Some (JObj poor_items)"
    by code_simp
  have a: "dict_get poor_items ''event'' JNull = JStr ''ProspectedAsteroid''"
    by (simp add: poor_items_def dict_get_def)
  have b: "num_val (dict_get poor_items ''Remaining'' (JInt 0)) = Some (Finite 100)"
    by (simp add: poor_items_def dict_get_def)
  have c: "dict_get poor_items ''Materials'' (JArr []) = JArr ?mats"
    by (simp add: poor_items_def dict_get_def)
  have d: "list_all wt_material ?mats"
    by (simp add: wt_material_def)
  have d': "list_all finite_proportion ?mats"
    by (simp add: finite_proportion_def material_proportion_def dict_get_def)
  have e: "mining_data app_init @
          map (app_row (dict_get poor_items ''timestamp'' (JStr (now_iso ?lib)))) (filter named ?mats)
          = [(JStr ''2024-01-01T00:00:00Z'', JStr ''Platinum'', 10)]"
    by code_simp
  have f: "queue (tts (snd (handle_mining ?lib [''Platinum'' \<mapsto> 30] poor_line app_init))) = []"
    by code_simp
  have g: "json_loads ?lib squadron_line = Some (JObj squadron_items)"
    by code_simp
  have h: "dict_get squadron_items ''event'' JNull \<noteq> JStr ''ProspectedAsteroid''"
    by (simp add: squadron_items_def dict_get_def)
  have i: "mining_data app_init = []"
    by (simp add: app_init_def)
  have j: "queue (tts (snd (process_line ?lib [''Platinum'' \<mapsto> 30] squadron_line app_init))) =
       [''message from squadron member Bob saying: hello'']"
    by code_simp
  have r1: "stats tracker_init @
          (if py_less (Finite 100) (Finite 100) then []
           else case find (meets_target [''Platinum'' \<mapsto> 10]) ?mats of
                  None \<Rightarrow> []
                | Some m \<Rightarrow> [tracker_row ?lib poor_items (dict_get poor_items ''Remaining'' (JInt 0)) m])
          = [\<lparr>row_timestamp = JStr ''2024-01-01T00:00:00Z'', row_material = JStr ''Platinum'',
               row_proportion = JFloat (Finite 10), row_motherlode = False,
               row_content_type = JStr ''Unknown'', row_remaining = JFloat (Finite 100)\<rparr>]"
    by code_simp
  have r2: "waiting tracker_init @
            (if py_less (Finite 100) (Finite 100) then []
             else case find (meets_target [''Platinum'' \<mapsto> 10]) ?mats of
                    None \<Rightarrow> []
                  | Some m \<Rightarrow> tracker_announcements ?lib m)
          = [''Platinum asteroid found with 10 percent content'']"
    by code_simp
  note inst = storage_of_observations [of poor_line ?lib poor_items ?mats "[''Platinum'' \<mapsto> 30]"
      app_init "Finite 100" "[''Platinum'' \<mapsto> 10]" tracker_init "JObj poor_items" squadron_line
      squadron_line squadron_items]
  from inst d' have tw: "takeWhile app_readable ?mats = ?mats"
    by blast
  from inst l1 l2 a c d
  have "mining_data (snd (handle_mining ?lib [''Platinum'' \<mapsto> 30] poor_line app_init)) =
          mining_data app_init @
          map (app_row (dict_get poor_items ''timestamp'' (JStr (now_iso ?lib))))
            (filter named (takeWhile app_readable ?mats))"
    by blast
  then have k: "mining_data (snd (handle_mining ?lib [''Platinum'' \<mapsto> 30] poor_line app_init)) =
                  [(JStr ''2024-01-01T00:00:00Z'', JStr ''Platinum'', 10)]"
    unfolding tw e .
  from inst a b c d
  have "stats (snd (process_asteroid ?lib [''Platinum'' \<mapsto> 10] (JObj poor_items) tracker_init)) =
          stats tracker_init @
          (if py_less (Finite 100) (Finite 100) then []
           else case find (meets_target [''Platinum'' \<mapsto> 10]) ?mats of
                  None \<Rightarrow> []
                | Some m \<Rightarrow> [tracker_row ?lib poor_items (dict_get poor_items ''Remaining'' (JInt 0)) m])
        \<and> waiting (snd (process_asteroid ?lib [''Platinum'' \<mapsto> 10] (JObj poor_items) tracker_init)) =
            waiting tracker_init @
            (if py_less (Finite 100) (Finite 100) then []
             else case find (meets_target [''Platinum'' \<mapsto> 10]) ?mats of
                    None \<Rightarrow> []
                  | Some m \<Rightarrow> tracker_announcements ?lib m)"
    by blast
  then have m: "stats (snd (process_asteroid ?lib [''Platinum'' \<mapsto> 10] (JObj poor_items) tracker_init)) =
          [\<lparr>row_timestamp = JStr ''2024-01-01T00:00:00Z'', row_material = JStr ''Platinum'',
            row_proportion = JFloat (Finite 10), row_motherlode = False,
            row_content_type = JStr ''Unknown'', row_remaining = JFloat (Finite 100)\<rparr>]"
    and n: "waiting (snd (process_asteroid ?lib [''Platinum'' \<mapsto> 10] (JObj poor_items) tracker_init)) =
          [''Platinum asteroid found with 10 percent content'']"
    unfolding r1 r2 by simp_all
  from inst g h
  have "mining_data (snd (process_line ?lib [''Platinum'' \<mapsto> 30] squadron_line app_init)) =
          mining_data app_init"
    by blast
  then have o: "mining_data (snd (process_line ?lib [''Platinum'' \<mapsto> 30] squadron_line app_init)) = []"
    unfolding i .
  from l1 l2 a b c d d' k f m n g h o j show ?thesis by blast
qed

text \<open>
  EDAT.py classifies an event whose only material is below its threshold, passes the
  gate, and records nothing. app.py stores nothing for the event whose first proportion is
  \<^verbatim>\<open>1e999\<close>: \<^verbatim>\<open>int\<close> raises before the first call of \<^verbatim>\<open>add_material\<close>.
\<close>

theorem storage_of_observations_counterexample:
  "process_asteroid lib0 target_materials (JObj poor_items) tracker_init =
     (Some False, tracker_init)
   \<and> stats tracker_init = []
   \<and> json_loads (lib_of [(inf_line, JObj inf_items)]) inf_line = Some (JObj inf_items)
   \<and> mining_data (snd (handle_mining (lib_of [(inf_line, JObj inf_items)]) thresholds_two
                         inf_line app_init)) = []"
  by code_simp

subsection \<open>Rounding of proportions\<close>

text \<open>
  C6, as amended. When EDAT.py announces a material, which it does only if the unrounded
  proportion is at least the threshold and \<^verbatim>\<open>round\<close> accepts it, the announcement shows the
  proportion rounded to the nearest integer (a tie to the even one) and the recorded row
  keeps the proportion as it was decoded. app.py, on the strict and on the fallback path
  alike, truncates a finite proportion towards zero, and uses that integer for the
  threshold test, for the announcement and for the stored row; both loops end at the first
  named material whose proportion is not finite, and go through the whole list when the
  proportions are finite.
\<close>

theorem proportion_display_and_storage:
  "(dict_get kvs ''event'' JNull = JStr ''ProspectedAsteroid''
        \<and> num_val (dict_get kvs ''Remaining'' (JInt 0)) = Some r \<and> \<not> py_less r (Finite 100)
        \<and> dict_get kvs ''Materials'' (JArr []) = JArr mats
        \<and> list_all wt_material mats
        \<and> find (meets_target target) mats = Some m
        \<and> round_number (material_proportion (JFloat (Finite 0)) m) = Some p \<longrightarrow>
        waiting (snd (process_asteroid lib target (JObj kvs) st)) =
          waiting st @
          [py_format lib (material_name m) @ '' asteroid found with '' @ str_int p @
           '' percent content'']
        \<and> map row_proportion (stats (snd (process_asteroid lib target (JObj kvs) st))) =
            map row_proportion (stats st) @ [material_proportion (JFloat (Finite 0)) m])
   \<and> round_number (JFloat (Finite x)) = Some (py_round x)
   \<and> (list_all wt_material mats' \<longrightarrow>
        mining_data (snd (strict_materials lib thr ts mats' ast)) =
          mining_data ast @
          map (\<lambda>m. (ts, material_name m, percent_of (material_proportion (JInt 0) m)))
            (filter named (takeWhile app_readable mats'))
        \<and> queue (tts (snd (strict_materials lib thr ts mats' ast))) =
            queue (tts ast) @
            map (\<lambda>m. py_format lib (material_name m) @ '' found at '' @
                      str_int (percent_of (material_proportion (JInt 0) m)) @ '' percent'')
              (filter (meets_threshold thr) (takeWhile app_readable mats'))
        \<and> regex_materials lib thr ts mats' ast = strict_materials lib thr ts mats' ast)
   \<and> (list_all finite_proportion mats' \<longrightarrow> takeWhile app_readable mats' = mats')
   \<and> py_int lib (JFloat (Finite x)) = Some (py_trunc x)
   \<and> percent_of (JFloat (Finite x)) = py_trunc x"
proof (intro conjI impI)
  assume h: "dict_get kvs ''event'' JNull = JStr ''ProspectedAsteroid''
        \<and> num_val (dict_get kvs ''Remaining'' (JInt 0)) = Some r \<and> \<not> py_less r (Finite 100)
        \<and> dict_get kvs ''Materials'' (JArr []) = JArr mats
        \<and> list_all wt_material mats
        \<and> find (meets_target target) mats = Some m
        \<and> round_number (material_proportion (JFloat (Finite 0)) m) = Some p"
  then have "process_asteroid lib target (JObj kvs) st =
           (if py_less r (Finite 100) then (None, st)
            else (Some (case find (meets_target target) mats of
                          None \<Rightarrow> False
                        | Some m \<Rightarrow> tracker_announcements lib m \<noteq> []),
                  after_scan lib target kvs (dict_get kvs ''Remaining'' (JInt 0)) mats st))"
    using process_asteroid_typed [of kvs r mats lib target st] by blast
  then have s: "snd (process_asteroid lib target (JObj kvs) st) =
                  after_scan lib target kvs (dict_get kvs ''Remaining'' (JInt 0)) mats st"
    using h by simp
  show "waiting (snd (process_asteroid lib target (JObj kvs) st)) =
          waiting st @
          [py_format lib (material_name m) @ '' asteroid found with '' @ str_int p @
           '' percent content'']"
    unfolding s using h
    by (simp add: waiting_after_scan tracker_announcements_def tracker_message_def)
  show "map row_proportion (stats (snd (process_asteroid lib target (JObj kvs) st))) =
            map row_proportion (stats st) @ [material_proportion (JFloat (Finite 0)) m]"
    unfolding s using h by (simp add: stats_after_scan tracker_row_def)
next
  show "round_number (JFloat (Finite x)) = Some (py_round x)" by simp
next
  assume wt: "list_all wt_material mats'"
  note s = strict_materials_typed [OF wt, of lib thr ts ast]
  show "mining_data (snd (strict_materials lib thr ts mats' ast)) =
          mining_data ast @
          map (\<lambda>m. (ts, material_name m, percent_of (material_proportion (JInt 0) m)))
            (filter named (takeWhile app_readable mats'))"
    unfolding s by (simp add: after_materials_def app_row_def)
  show "queue (tts (snd (strict_materials lib thr ts mats' ast))) =
            queue (tts ast) @
            map (\<lambda>m. py_format lib (material_name m) @ '' found at '' @
                      str_int (percent_of (material_proportion (JInt 0) m)) @ '' percent'')
              (filter (meets_threshold thr) (takeWhile app_readable mats'))"
    unfolding s by (simp add: after_materials_def app_message_def)
  show "regex_materials lib thr ts mats' ast = strict_materials lib thr ts mats' ast"
    by (rule regex_materials_strict)
next
  assume "list_all finite_proportion mats'"
  then show "takeWhile app_readable mats' = mats'"
    by (rule takeWhile_finite)
next
  show "py_int lib (JFloat (Finite x)) = Some (py_trunc x)" by simp
next
  show "percent_of (JFloat (Finite x)) = py_trunc x" by simp
qed

theorem proportion_display_and_storage_witness:
  "dict_get frac_items ''event'' JNull = JStr ''ProspectedAsteroid''
   \<and> num_val (dict_get frac_items ''Remaining'' (JInt 0)) = Some (Finite 100)
   \<and> \<not> py_less (Finite 100) (Finite 100)
   \<and> dict_get frac_items ''Materials'' (JArr []) =
       JArr [JObj [(''Name'', JStr ''Platinum''), (''Proportion'', JFloat (Finite (273 / 5)))]]
   \<and> list_all wt_material [JObj [(''Name'', JStr ''Platinum''), (''Proportion'', JFloat (Finite (273 / 5)))]]
   \<and> list_all finite_proportion
       [JObj [(''Name'', JStr ''Platinum''), (''Proportion'', JFloat (Finite (273 / 5)))]]
   \<and> find (meets_target target_materials)
        [JObj [(''Name'', JStr ''Platinum''), (''Proportion'', JFloat (Finite (273 / 5)))]] =
       Some (JObj [(''Name'', JStr ''Platinum''), (''Proportion'', JFloat (Finite (273 / 5)))])
   \<and> round_number (material_proportion (JFloat (Finite 0))
        (JObj [(''Name'', JStr ''Platinum''), (''Proportion'', JFloat (Finite (273 / 5)))])) = Some 55
   \<and> waiting (snd (process_asteroid lib0 target_materials (JObj frac_items) tracker_init)) =
       [''Platinum asteroid found with 55 percent content'']
   \<and> map row_proportion (stats (snd (process_asteroid lib0 target_materials (JObj frac_items)
                                       tracker_init))) = [JFloat (Finite (273 / 5))]
   \<and> mining_data (snd (strict_materials lib0 [''Platinum'' \<mapsto> 30] (JStr ''T'')
        [JObj [(''Name'', JStr ''Platinum''), (''Proportion'', JFloat (Finite (273 / 5)))]] app_init)) =
       [(JStr ''T'', JStr ''Platinum'', 54)]
   \<and> queue (tts (snd (strict_materials lib0 [''Platinum'' \<mapsto> 30] (JStr ''T'')
        [JObj [(''Name'', JStr ''Platinum''), (''Proportion'', JFloat (Finite (273 / 5)))]] app_init))) =
       [''Platinum found at 54 percent'']"
proof -
  let ?m = "JObj [(''Name'', JStr ''Platinum''), (''Proportion'', JFloat (Finite (273 / 5)))]"
  have a: "dict_get frac_items ''event'' JNull = JStr ''ProspectedAsteroid''"
    by (simp add: frac_items_def dict_get_def)
  have b: "num_val (dict_get frac_items ''Remaining'' (JInt 0)) = Some (Finite 100)"
    by (simp add: frac_items_def dict_get_def)
  have b': "\<not> py_less (Finite 100) (Finite 100)"
    by simp
  have c: "dict_get frac_items ''Materials'' (JArr []) = JArr [?m]"
    by (simp add: frac_items_def dict_get_def)
  have d: "list_all wt_material [?m]"
    by (simp add: wt_material_def)
  have d': "list_all finite_proportion [?m]"
    by (simp add: finite_proportion_def material_proportion_def dict_get_def)
  have e: "find (meets_target target_materials) [?m] = Some ?m"
    by code_simp
  have e': "round_number (material_proportion (JFloat (Finite 0)) ?m) = Some 55"
    by code_simp
  have f: "waiting tracker_init @
          [py_format lib0 (material_name ?m) @ '' asteroid found with '' @ str_int 55 @
           '' percent content'']
           = [''Platinum asteroid found with 55 percent content'']"
    by code_simp
  have g: "map row_proportion (stats tracker_init) @ [material_proportion (JFloat (Finite 0)) ?m]
           = [JFloat (Finite (273 / 5))]"
    by (simp add: tracker_init_def material_proportion_def dict_get_def)
  have h: "mining_data app_init @
          map (\<lambda>m. (JStr ''T'', material_name m, percent_of (material_proportion (JInt 0) m)))
            (filter named [?m]) = [(JStr ''T'', JStr ''Platinum'', 54)]"
    by code_simp
  have i: "queue (tts app_init) @
            map (\<lambda>m. py_format lib0 (material_name m) @ '' found at '' @
                      str_int (percent_of (material_proportion (JInt 0) m)) @ '' percent'')
              (filter (meets_threshold [''Platinum'' \<mapsto> 30]) [?m])
           = [''Platinum found at 54 percent'']"
    by code_simp
  note inst = proportion_display_and_storage [where kvs = frac_items and r = "Finite 100"
      and mats = "[?m]" and target = target_materials and m = ?m and p = 55 and lib = lib0
      and st = tracker_init and mats' = "[?m]" and thr = "[''Platinum'' \<mapsto> 30]"
      and ts = "JStr ''T''" and ast = app_init]
  from inst a b b' c d e e'
  have "waiting (snd (process_asteroid lib0 target_materials (JObj frac_items) tracker_init)) =
          waiting tracker_init @
          [py_format lib0 (material_name ?m) @ '' asteroid found with '' @ str_int 55 @
           '' percent content'']
        \<and> map row_proportion (stats (snd (process_asteroid lib0 target_materials (JObj frac_items)
                                             tracker_init))) =
            map row_proportion (stats tracker_init) @ [material_proportion (JFloat (Finite 0)) ?m]"
    by blast
  then have j: "waiting (snd (process_asteroid lib0 target_materials (JObj frac_items) tracker_init)) =
                  [''Platinum asteroid found with 55 percent content'']"
    and k: "map row_proportion (stats (snd (process_asteroid lib0 target_materials (JObj frac_items)
                                              tracker_init))) = [JFloat (Finite (273 / 5))]"
    unfolding f g by simp_all
  from inst d' have tw: "takeWhile app_readable [?m] = [?m]"
    by blast
  from inst d
  have "mining_data (snd (strict_materials lib0 [''Platinum'' \<mapsto> 30] (JStr ''T'') [?m] app_init)) =
          mining_data app_init @
          map (\<lambda>m. (JStr ''T'', material_name m, percent_of (material_proportion (JInt 0) m)))
            (filter named (takeWhile app_readable [?m]))
        \<and> queue (tts (snd (strict_materials lib0 [''Platinum'' \<mapsto> 30] (JStr ''T'') [?m] app_init))) =
            queue (tts app_init) @
            map (\<lambda>m. py_format lib0 (material_name m) @ '' found at '' @
                      str_int (percent_of (material_proportion (JInt 0) m)) @ '' percent'')
              (filter (meets_threshold [''Platinum'' \<mapsto> 30]) (takeWhile app_readable [?m]))"
    by blast
  then have l: "mining_data (snd (strict_materials lib0 [''Platinum'' \<mapsto> 30] (JStr ''T'') [?m] app_init)) =
                  [(JStr ''T'', JStr ''Platinum'', 54)]"
    and n: "queue (tts (snd (strict_materials lib0 [''Platinum'' \<mapsto> 30] (JStr ''T'') [?m] app_init))) =
              [''Platinum found at 54 percent'']"
    unfolding tw h i by simp_all
  from a b b' c d d' e e' j k l n show ?thesis by blast
qed

text \<open>
  For a proportion of 49.9 and a threshold of 50, EDAT.py announces and records nothing,
  and app.py announces nothing and stores 49.
\<close>

theorem proportion_display_and_storage_counterexample:
  "json_loads (lib_of [(near_line, JObj near_items)]) near_line = Some (JObj near_items)
   \<and> process_asteroid (lib_of [(near_line, JObj near_items)]) [''Platinum'' \<mapsto> 50]
        (JObj near_items) tracker_init = (Some False, tracker_init)
   \<and> waiting tracker_init = [] \<and> stats tracker_init = []
   \<and> queue (tts (snd (handle_mining (lib_of [(near_line, JObj near_items)])
                        [''Platinum'' \<mapsto> 50] near_line app_init))) = []
   \<and> mining_data (snd (handle_mining (lib_of [(near_line, JObj near_items)])
                        [''Platinum'' \<mapsto> 50] near_line app_init)) =
       [(JStr ''2024-01-01T00:00:00Z'', JStr ''Platinum'', 49)]"
  by code_simp

subsection \<open>Assembling lines from chunks\<close>

lemma line_boundary_LF: "line_boundary LF"
  by (simp add: line_boundary_def)

lemma line_boundary_CR: "line_boundary CR"
  by (simp add: line_boundary_def)

lemma splitlines_nonempty: "s \<noteq> [] \<Longrightarrow> splitlines s \<noteq> []"
proof (cases s)
  case Nil
  assume "s \<noteq> []"
  then show ?thesis using Nil by simp
next
  case (Cons c cs)
  show ?thesis
  proof (cases cs)
    case Nil
    then show ?thesis using Cons by simp
  next
    case cs: (Cons d ds)
    show ?thesis
      unfolding Cons by (cases "splitlines cs") (simp_all add: cs)
  qed
qed

lemma splitlines_CRLF: "splitlines (CR # LF # ds) = [] # splitlines ds"
  by simp

lemma splitlines_break:
  "line_boundary p \<Longrightarrow> \<not> (p = CR \<and> d = LF) \<Longrightarrow>
     splitlines (p # d # ds) = [] # splitlines (d # ds)"
  by (cases "p = CR") simp_all

lemma splitlines_break1: "line_boundary p \<Longrightarrow> splitlines [p] = [[]]"
  by (cases "p = CR") simp_all

lemma splitlines_plain:
  "\<not> line_boundary p \<Longrightarrow> splitlines r = l # ls \<Longrightarrow> splitlines (p # r) = (p # l) # ls"
  using line_boundary_CR by auto

lemma splitlines_plain1: "\<not> line_boundary p \<Longrightarrow> splitlines [p] = [[p]]"
  using line_boundary_CR by auto

declare splitlines.simps(2) [simp del]

lemma splitlines_append_terminated:
  "s \<noteq> [] \<Longrightarrow> last s = LF \<Longrightarrow> splitlines (s @ t) = splitlines s @ splitlines t"
proof (induction s rule: length_induct)
  case (1 s)
  note IH = "1.IH" [rule_format]
  from "1.prems" obtain p r where s: "s = p # r" by (cases s) auto
  show ?case
  proof (cases r)
    case Nil
    then have p: "p = LF" using s "1.prems" by simp
    show ?thesis
    proof (cases t)
      case Nil
      then show ?thesis by simp
    next
      case (Cons d ds)
      have "splitlines (LF # d # ds) = [] # splitlines (d # ds)"
        by (rule splitlines_break) (simp_all add: line_boundary_LF)
      moreover have "splitlines [LF] = [[]]"
        by (rule splitlines_break1) (rule line_boundary_LF)
      ultimately show ?thesis
        unfolding s \<open>r = []\<close> p Cons by simp
    qed
  next
    case (Cons d ds)
    then have lr: "last r = LF" and rne: "r \<noteq> []" using s "1.prems" by simp_all
    have ih: "splitlines (r @ t) = splitlines r @ splitlines t"
      using IH [of r] s rne lr by simp
    show ?thesis
    proof (cases "p = CR \<and> d = LF")
      case True
      have l: "splitlines (p # d # ds @ t) = [] # splitlines (ds @ t)"
        using True splitlines_CRLF [of "ds @ t"] by simp
      have r': "splitlines (p # d # ds) = [] # splitlines ds"
        using True splitlines_CRLF [of ds] by simp
      have "splitlines (ds @ t) = splitlines ds @ splitlines t"
      proof (cases "ds = []")
        case True
        then show ?thesis by simp
      next
        case False
        then have "last ds = LF" using lr Cons by simp
        then show ?thesis using IH [of ds] s Cons False by simp
      qed
      then show ?thesis
        unfolding s Cons using l r' by simp
    next
      case nopair: False
      show ?thesis
      proof (cases "line_boundary p")
        case True
        have "splitlines (p # d # ds @ t) = [] # splitlines (d # ds @ t)"
          using splitlines_break [OF True nopair, of "ds @ t"] .
        moreover have "splitlines (p # d # ds) = [] # splitlines (d # ds)"
          using splitlines_break [OF True nopair, of ds] .
        ultimately show ?thesis
          using ih unfolding s Cons by simp
      next
        case False
        obtain l ls where sl: "splitlines r = l # ls"
          using splitlines_nonempty [OF rne] by (cases "splitlines r") auto
        have "splitlines (p # r @ t) = (p # l) # ls @ splitlines t"
          using splitlines_plain [OF False, of "r @ t" l "ls @ splitlines t"] ih sl
          by simp
        moreover have "splitlines (p # r) = (p # l) # ls"
          using splitlines_plain [OF False sl] .
        ultimately show ?thesis
          unfolding s by simp
      qed
    qed
  qed
qed

lemma journal_text_CR:
  "journal_text (CR # cs) \<Longrightarrow> \<exists>ds. cs = LF # ds \<and> journal_text cs"
  by (cases cs) simp_all

lemma journal_text_other:
  "p \<noteq> CR \<Longrightarrow> journal_text (p # cs) \<Longrightarrow> (p = LF \<or> \<not> line_boundary p) \<and> journal_text cs"
  by simp

declare journal_text.simps(2) [simp del]

lemma splitlines_LF: "splitlines (LF # cs) = [] # splitlines cs"
proof (cases cs)
  case Nil
  then show ?thesis using splitlines_break1 [OF line_boundary_LF] by simp
next
  case (Cons d ds)
  then show ?thesis using splitlines_break [OF line_boundary_LF, of d ds] by simp
qed

lemma butlast_last_Cons:
  "xs \<noteq> [] \<Longrightarrow> butlast (x # xs) = x # butlast xs \<and> last (x # xs) = last xs"
  by simp

lemma splitlines_append_open:
  assumes "journal_text (s @ c @ rest)" and "s \<noteq> []" and "last s \<noteq> LF" and "c \<noteq> []"
  shows "splitlines (s @ c) =
           butlast (splitlines s) @ (last (splitlines s) @ hd (splitlines c)) # tl (splitlines c)"
  using assms
proof (induction s rule: length_induct)
  case (1 s)
  note IH = "1.IH" [rule_format]
  from "1.prems" obtain p r where s: "s = p # r" by (cases s) auto
  have jt: "journal_text (p # r @ c @ rest)" using "1.prems"(1) s by simp
  obtain l ls where sc: "splitlines c = l # ls"
    using splitlines_nonempty [OF \<open>c \<noteq> []\<close>] by (cases "splitlines c") auto
  show ?case
  proof (cases r)
    case Nil
    then have pn: "p \<noteq> LF" using s "1.prems"(3) by simp
    show ?thesis
    proof (cases "p = CR")
      case True
      then obtain ds where "r @ c @ rest = LF # ds" using journal_text_CR jt by blast
      then obtain c' where c: "c = LF # c'" using Nil \<open>c \<noteq> []\<close> by (cases c) auto
      have "splitlines (CR # LF # c') = [] # splitlines c'" by (rule splitlines_CRLF)
      moreover have "splitlines [CR] = [[]]" by (rule splitlines_break1) (rule line_boundary_CR)
      moreover have "splitlines (LF # c') = [] # splitlines c'" by (rule splitlines_LF)
      ultimately show ?thesis unfolding s Nil True c by simp
    next
      case False
      then have np: "\<not> line_boundary p" using journal_text_other [OF False jt] pn by simp
      have "splitlines (p # c) = (p # l) # ls" using splitlines_plain [OF np sc] .
      moreover have "splitlines [p] = [[p]]" using splitlines_plain1 [OF np] .
      ultimately show ?thesis unfolding s Nil sc by simp
    qed
  next
    case (Cons d ds)
    then have rne: "r \<noteq> []" and lr: "last r \<noteq> LF" using s "1.prems"(3) by simp_all
    show ?thesis
    proof (cases "p = CR")
      case True
      then obtain ds' where "r @ c @ rest = LF # ds'" and jr: "journal_text (r @ c @ rest)"
        using journal_text_CR jt by blast
      then have d: "d = LF" using Cons by simp
      have dne: "ds \<noteq> []" using lr Cons d by auto
      then have lds: "last ds \<noteq> LF" using lr Cons by simp
      have "journal_text (ds @ c @ rest)"
        using journal_text_other [of LF "ds @ c @ rest"] jr Cons d by simp
      then have ih: "splitlines (ds @ c) =
           butlast (splitlines ds) @ (last (splitlines ds) @ hd (splitlines c)) # tl (splitlines c)"
        using IH [of ds] s Cons dne lds \<open>c \<noteq> []\<close> by simp
      have x: "splitlines ds \<noteq> []" using splitlines_nonempty [OF dne] .
      have "splitlines (CR # LF # ds @ c) = [] # splitlines (ds @ c)"
        using splitlines_CRLF [of "ds @ c"] by simp
      moreover have "splitlines (CR # LF # ds) = [] # splitlines ds" by (rule splitlines_CRLF)
      ultimately show ?thesis
        unfolding s Cons True d using ih x by simp
    next
      case False
      then have pj: "p = LF \<or> \<not> line_boundary p" and jr: "journal_text (r @ c @ rest)"
        using journal_text_other [OF False jt] by simp_all
      have ih: "splitlines (r @ c) =
           butlast (splitlines r) @ (last (splitlines r) @ hd (splitlines c)) # tl (splitlines c)"
        using IH [of r] s rne lr jr \<open>c \<noteq> []\<close> by simp
      obtain x xs where sr: "splitlines r = x # xs"
        using splitlines_nonempty [OF rne] by (cases "splitlines r") auto
      show ?thesis
      proof (cases "p = LF")
        case True
        have "splitlines (LF # r @ c) = [] # splitlines (r @ c)" by (rule splitlines_LF)
        moreover have "splitlines (LF # r) = [] # splitlines r" by (rule splitlines_LF)
        ultimately show ?thesis
          unfolding s True using ih sr by simp
      next
        case False
        then have np: "\<not> line_boundary p" using pj by simp
        show ?thesis
        proof (cases xs)
          case Nil
          have rc: "splitlines (r @ c) = (x @ l) # ls" using ih sr Nil sc by simp
          have "splitlines (p # r @ c) = (p # x @ l) # ls"
            using splitlines_plain [OF np rc] .
          moreover have "splitlines (p # r) = [p # x]"
            using splitlines_plain [OF np, of r x "[]"] sr Nil by simp
          ultimately show ?thesis unfolding s sc by simp
        next
          case (Cons y ys)
          have rc: "splitlines (r @ c) = x # (butlast xs @ (last xs @ l) # ls)"
            using ih sr Cons sc by simp
          have "splitlines (p # r @ c) = (p # x) # (butlast xs @ (last xs @ l) # ls)"
            using splitlines_plain [OF np rc] .
          moreover have "splitlines (p # r) = (p # x) # xs"
            using splitlines_plain [OF np sr] .
          ultimately show ?thesis unfolding s sc using Cons by simp
        qed
      qed
    qed
  qed
qed

lemma suffix_LF: "suffix [LF] c = (c \<noteq> [] \<and> last c = LF)"
  by (cases c rule: rev_cases) (auto simp: suffix_def)

lemma assemble_lines_result:
  assumes "splitlines c = l # ls"
  shows "fst (assemble_lines c st) =
           (if c \<noteq> [] \<and> last c = LF then (tracker_last_line st @ l) # ls
            else butlast ((tracker_last_line st @ l) # ls))"
    and "tracker_last_line (snd (assemble_lines c st)) =
           (if c \<noteq> [] \<and> last c = LF then [] else last ((tracker_last_line st @ l) # ls))"
    and "current_journal_path (snd (assemble_lines c st)) = current_journal_path st"
    and "tracker_last_position (snd (assemble_lines c st)) = tracker_last_position st"
  using assms
  by (cases "tracker_last_line st = []"; simp add: assemble_lines_def suffix_LF)+

lemma assemble_lines_caught_up:
  assumes jt: "journal_text (P @ c @ rest)" and c: "c \<noteq> []"
    and inv: "caught_up P em (tracker_last_line st)"
  shows "caught_up (P @ c) (em @ fst (assemble_lines c st))
           (tracker_last_line (snd (assemble_lines c st)))"
proof -
  obtain l ls where sc: "splitlines c = l # ls"
    using splitlines_nonempty [OF c] by (cases "splitlines c") auto
  note r = assemble_lines_result(1,2) [OF sc, of st]
  let ?q = "tracker_last_line st"
  have whole: "splitlines (P @ c) = em @ (?q @ l) # ls"
  proof (cases "P = [] \<or> last P = LF")
    case True
    then have q: "?q = []" and em: "em = splitlines P"
      using inv by (simp_all add: caught_up_def)
    show ?thesis
    proof (cases "P = []")
      case True
      then show ?thesis using q em sc by simp
    next
      case False
      then have "last P = LF" using True by simp
      then show ?thesis
        using splitlines_append_terminated [OF False, of c] q em sc by simp
    qed
  next
    case False
    then have q: "?q = last (splitlines P)" and em: "em = butlast (splitlines P)"
      using inv by (simp_all add: caught_up_def)
    show ?thesis
      using splitlines_append_open [OF jt _ _ c] False q em sc by simp
  qed
  show ?thesis
  proof (cases "last c = LF")
    case True
    then show ?thesis
      using c whole r by (simp add: caught_up_def)
  next
    case False
    then show ?thesis
      using c whole r by (simp add: caught_up_def butlast_append)
  qed
qed

lemma read_journal_lines_chunk:
  assumes "current_journal_path st = Some path" and "path \<noteq> []"
    and "tracker_last_position st = length P"
    and "decode_ignore lib c = c"
  shows "read_journal_lines lib [path \<mapsto> P @ c] st =
           (if c = [] then ([], st)
            else assemble_lines c (st\<lparr>tracker_last_position := length (P @ c)\<rparr>))"
  using assms by (simp add: read_journal_lines_def Let_def)

lemma is_ascii_concat: "is_ascii (concat chunks) \<Longrightarrow> list_all is_ascii chunks"
  by (induction chunks) (simp_all add: is_ascii_def)

lemma tail_lines_caught_up:
  assumes "journal_text (P @ concat chunks @ rest)"
    and "current_journal_path st = Some path" and "path \<noteq> []"
    and "tracker_last_position st = length P"
    and "caught_up P em (tracker_last_line st)"
    and "list_all (\<lambda>c. decode_ignore lib c = c) chunks"
  shows "caught_up (P @ concat chunks) (em @ fst (tail_lines lib path (snapshots P chunks) st))
           (tracker_last_line (snd (tail_lines lib path (snapshots P chunks) st)))"
  using assms
proof (induction chunks arbitrary: P em st)
  case Nil
  then show ?case by simp
next
  case (Cons c chunks)
  have dc: "decode_ignore lib c = c" and dcs: "list_all (\<lambda>c. decode_ignore lib c = c) chunks"
    using Cons.prems(6) by simp_all
  show ?case
  proof (cases "c = []")
    case True
    have "read_journal_lines lib [path \<mapsto> P @ c] st = ([], st)"
      using read_journal_lines_chunk [OF Cons.prems(2-4) dc] True by simp
    then have "tail_lines lib path (snapshots P (c # chunks)) st =
                 tail_lines lib path (snapshots P chunks) st"
      using True by (simp split: prod.splits)
    then show ?thesis
      using Cons.IH [of P st em] Cons.prems(1-5) dcs True by simp
  next
    case False
    let ?st0 = "st\<lparr>tracker_last_position := length (P @ c)\<rparr>"
    let ?a = "assemble_lines c ?st0"
    have rd: "read_journal_lines lib [path \<mapsto> P @ c] st = ?a"
      using read_journal_lines_chunk [OF Cons.prems(2-4) dc] False by simp
    obtain l ls where sc: "splitlines c = l # ls"
      using splitlines_nonempty [OF False] by (cases "splitlines c") auto
    have jt: "journal_text (P @ c @ (concat chunks @ rest))"
      using Cons.prems(1) by simp
    have inv0: "caught_up P em (tracker_last_line ?st0)"
      using Cons.prems(5) by simp
    have inv1: "caught_up (P @ c) (em @ fst ?a) (tracker_last_line (snd ?a))"
      using assemble_lines_caught_up [OF jt False inv0] .
    have path1: "current_journal_path (snd ?a) = Some path"
      using assemble_lines_result(3) [OF sc, of ?st0] Cons.prems(2) by simp
    have pos1: "tracker_last_position (snd ?a) = length (P @ c)"
      using assemble_lines_result(4) [OF sc, of ?st0] by simp
    have jt1: "journal_text ((P @ c) @ concat chunks @ rest)"
      using Cons.prems(1) by simp
    have step: "tail_lines lib path (snapshots P (c # chunks)) st =
                  (fst ?a @ fst (tail_lines lib path (snapshots (P @ c) chunks) (snd ?a)),
                   snd (tail_lines lib path (snapshots (P @ c) chunks) (snd ?a)))"
      using rd by (simp split: prod.splits)
    show ?thesis
      using Cons.IH [OF jt1 path1 Cons.prems(3) pos1 inv1 dcs] step by simp
  qed
qed

lemma join_splitlines:
  "journal_text s \<Longrightarrow> CR \<notin> set s \<Longrightarrow> s = [] \<or> last s = LF \<Longrightarrow>
     concat (map (\<lambda>l. l @ [LF]) (splitlines s)) = s"
proof (induction s)
  case Nil
  show ?case by simp
next
  case (Cons p r)
  then have p: "p \<noteq> CR" by auto
  have pj: "p = LF \<or> \<not> line_boundary p" and jr: "journal_text r"
    using journal_text_other [OF p Cons.prems(1)] by simp_all
  show ?case
  proof (cases "p = LF")
    case True
    have "r = [] \<or> last r = LF" using Cons.prems(3) by (cases r) auto
    then have "concat (map (\<lambda>l. l @ [LF]) (splitlines r)) = r"
      using Cons.IH jr Cons.prems(2) by simp
    then show ?thesis
      unfolding True splitlines_LF by simp
  next
    case False
    then have np: "\<not> line_boundary p" using pj by simp
    have rne: "r \<noteq> []" using Cons.prems(3) False by auto
    then have "last r = LF" using Cons.prems(3) by simp
    then have ih: "concat (map (\<lambda>l. l @ [LF]) (splitlines r)) = r"
      using Cons.IH jr Cons.prems(2) by simp
    obtain x xs where sr: "splitlines r = x # xs"
      using splitlines_nonempty [OF rne] by (cases "splitlines r") auto
    show ?thesis
      using splitlines_plain [OF np sr] ih sr by simp
  qed
qed

lemma readlines_segment:
  "seg \<noteq> [] \<Longrightarrow> CR \<notin> set seg \<Longrightarrow> LF \<notin> set seg \<Longrightarrow> readlines seg = [seg]"
proof (induction seg)
  case Nil
  then show ?case by simp
next
  case (Cons c seg)
  then show ?case by (cases seg) auto
qed

text \<open>
  C2, as amended. In EDAT.py, for every ASCII text in which each line ends with LF or CR LF
  and which ends in LF, and for every way of cutting its bytes into the chunks of
  successive reads (empty chunks and cuts between CR and LF included), the lines that
  reach the decoding loop are, in order, the lines of the whole text, and nothing stays
  pending; when the text has no CR, these lines with LF put back give the text. The
  decoder is a parameter of which the theorem assumes that it returns ASCII bytes as they
  are. A trailing segment without terminator is kept as the pending line and put before
  the first segment of the next read. In app.py nothing is kept: a read that finds a
  trailing segment of ASCII text without terminator returns it, stripped, as a line, and
  moves the offset past it.
\<close>

theorem line_assembly:
  "((\<forall>s. is_ascii s \<longrightarrow> decode_ignore lib s = s) \<and> is_ascii (concat chunks)
      \<and> journal_text (concat chunks) \<and> concat chunks \<noteq> [] \<and> last (concat chunks) = LF
      \<and> path \<noteq> [] \<and> current_journal_path st = Some path
      \<and> tracker_last_position st = 0 \<and> tracker_last_line st = [] \<longrightarrow>
      fst (tail_lines lib path (snapshots [] chunks) st) = splitlines (concat chunks)
      \<and> tracker_last_line (snd (tail_lines lib path (snapshots [] chunks) st)) = []
      \<and> (CR \<notin> set (concat chunks) \<longrightarrow>
           concat (map (\<lambda>l. l @ [LF]) (fst (tail_lines lib path (snapshots [] chunks) st)))
             = concat chunks))
   \<and> (find_latest_journal w = Some latest \<and> Some latest = current_file ast
      \<and> files w latest = Some (pre @ seg) \<and> last_position ast = length pre
      \<and> is_ascii (pre @ seg)
      \<and> seg \<noteq> [] \<and> CR \<notin> set seg \<and> LF \<notin> set seg
      \<and> strip seg \<noteq> [] \<and> Some (strip seg) \<noteq> last_line ast \<longrightarrow>
      read_new_lines w ast =
        ([strip seg], ast\<lparr>last_position := length (pre @ seg), last_line := Some (strip seg)\<rparr>))"
proof (intro conjI impI)
  assume h: "(\<forall>s. is_ascii s \<longrightarrow> decode_ignore lib s = s) \<and> is_ascii (concat chunks)
      \<and> journal_text (concat chunks) \<and> concat chunks \<noteq> [] \<and> last (concat chunks) = LF
      \<and> path \<noteq> [] \<and> current_journal_path st = Some path
      \<and> tracker_last_position st = 0 \<and> tracker_last_line st = []"
  let ?r = "tail_lines lib path (snapshots [] chunks) st"
  have "list_all is_ascii chunks"
    using h is_ascii_concat by blast
  then have dec: "list_all (\<lambda>c. decode_ignore lib c = c) chunks"
    using h by (simp add: list_all_iff)
  have "caught_up ([] @ concat chunks) ([] @ fst ?r) (tracker_last_line (snd ?r))"
    using h dec by (intro tail_lines_caught_up [where rest = "[]"]) (simp_all add: caught_up_def)
  then have c: "fst ?r = splitlines (concat chunks) \<and> tracker_last_line (snd ?r) = []"
    using h by (simp add: caught_up_def)
  then show "fst ?r = splitlines (concat chunks)"
    and "tracker_last_line (snd ?r) = []" by simp_all
  assume "CR \<notin> set (concat chunks)"
  then show "concat (map (\<lambda>l. l @ [LF]) (fst ?r)) = concat chunks"
    using c h join_splitlines [of "concat chunks"] by simp
next
  assume h: "find_latest_journal w = Some latest \<and> Some latest = current_file ast
      \<and> files w latest = Some (pre @ seg) \<and> last_position ast = length pre
      \<and> is_ascii (pre @ seg)
      \<and> seg \<noteq> [] \<and> CR \<notin> set seg \<and> LF \<notin> set seg
      \<and> strip seg \<noteq> [] \<and> Some (strip seg) \<noteq> last_line ast"
  then have f1: "find_latest_journal w = Some latest" and f2: "current_file ast = Some latest"
    and f3: "files w latest = Some (pre @ seg)" and f4: "last_position ast = length pre"
    and f5: "strip seg \<noteq> []" and f6: "Some (strip seg) \<noteq> last_line ast"
    by simp_all
  have rl: "readlines seg = [seg]"
    using h readlines_segment [of seg] by simp
  have sw: "switch_journal w latest ast = ast"
    using f2 by (simp add: switch_journal_def)
  show "read_new_lines w ast =
        ([strip seg], ast\<lparr>last_position := length (pre @ seg), last_line := Some (strip seg)\<rparr>)"
    using f5 f6 unfolding read_new_lines_def f1 by (auto simp: sw f3 f4 rl Let_def)
qed

theorem line_assembly_witness:
  "decode_ignore lib0 = (\<lambda>bytes. bytes)
   \<and> is_ascii (concat [take 60 prospect_line, drop 60 prospect_line @ [CR], [LF]])
   \<and> journal_text (concat [take 60 prospect_line, drop 60 prospect_line @ [CR], [LF]])
   \<and> concat [take 60 prospect_line, drop 60 prospect_line @ [CR], [LF]] = prospect_line @ [CR, LF]
   \<and> fst (tail_lines lib0 journal1
             (snapshots [] [take 60 prospect_line, drop 60 prospect_line @ [CR], [LF]])
             tracker_tracking) = [prospect_line]
   \<and> tracker_last_line (snd (tail_lines lib0 journal1
             (snapshots [] [take 60 prospect_line, drop 60 prospect_line @ [CR], [LF]])
             tracker_tracking)) = []
   \<and> is_ascii (concat [music_head, music_tail @ [LF]])
   \<and> journal_text (concat [music_head, music_tail @ [LF]])
   \<and> CR \<notin> set (concat [music_head, music_tail @ [LF]])
   \<and> concat (map (\<lambda>l. l @ [LF])
         (fst (tail_lines lib0 journal1 (snapshots [] [music_head, music_tail @ [LF]])
                 tracker_tracking))) = music_head @ music_tail @ [LF]
   \<and> find_latest_journal dir_partial = Some journal1
   \<and> files dir_partial journal1 = Some ([] @ music_head)
   \<and> is_ascii ([] @ music_head)
   \<and> read_new_lines dir_partial app_tracking =
       ([music_head], app_tracking\<lparr>last_position := length music_head,
                                     last_line := Some music_head\<rparr>)"
proof -
  let ?c1 = "[take 60 prospect_line, drop 60 prospect_line @ [CR], [LF]]"
  let ?c2 = "[music_head, music_tail @ [LF]]"
  have a0: "decode_ignore lib0 = (\<lambda>bytes. bytes)"
    by (simp add: lib0_def lib_of_def)
  then have a0': "\<forall>s. is_ascii s \<longrightarrow> decode_ignore lib0 s = s"
    by simp
  have a1: "journal_text (concat ?c1)" by code_simp
  have a1': "is_ascii (concat ?c1)" by code_simp
  have a2: "concat ?c1 = prospect_line @ [CR, LF]" by simp
  have a3: "concat ?c1 \<noteq> [] \<and> last (concat ?c1) = LF \<and> journal1 \<noteq> []"
    by (simp add: journal1_def)
  have a4: "current_journal_path tracker_tracking = Some journal1
            \<and> tracker_last_position tracker_tracking = 0 \<and> tracker_last_line tracker_tracking = []"
    by (simp add: tracker_tracking_def tracker_init_def)
  have a5: "splitlines (concat ?c1) = [prospect_line]" by code_simp
  have b1: "journal_text (concat ?c2)" by code_simp
  have b1': "is_ascii (concat ?c2)" by code_simp
  have b2: "CR \<notin> set (concat ?c2)" by code_simp
  have b3: "concat ?c2 \<noteq> [] \<and> last (concat ?c2) = LF"
    by simp
  have b4: "concat ?c2 = music_head @ music_tail @ [LF]" by simp
  have d1: "find_latest_journal dir_partial = Some journal1" by code_simp
  have d2: "files dir_partial journal1 = Some ([] @ music_head)"
    by (simp add: dir_partial_def)
  have d2': "is_ascii ([] @ music_head)" by code_simp
  have d3: "Some journal1 = current_file app_tracking \<and> last_position app_tracking = length ([] :: string)"
    by (simp add: app_tracking_def app_init_def)
  have d4: "music_head \<noteq> [] \<and> CR \<notin> set music_head \<and> LF \<notin> set music_head"
    by (simp add: music_head_def)
  have d5: "strip music_head = music_head" by code_simp
  have d6: "strip music_head \<noteq> [] \<and> Some (strip music_head) \<noteq> last_line app_tracking"
    unfolding d5 by (simp add: music_head_def app_tracking_def app_init_def)
  have e1: "fst (tail_lines lib0 journal1 (snapshots [] ?c1) tracker_tracking) = splitlines (concat ?c1)
            \<and> tracker_last_line (snd (tail_lines lib0 journal1 (snapshots [] ?c1) tracker_tracking)) = []"
    using line_assembly [of lib0 ?c1 journal1 tracker_tracking] a0' a1 a1' a3 a4 by blast
  have e2: "concat (map (\<lambda>l. l @ [LF])
              (fst (tail_lines lib0 journal1 (snapshots [] ?c2) tracker_tracking))) = concat ?c2"
    using line_assembly [of lib0 ?c2 journal1 tracker_tracking] a0' b1 b1' b2 b3 a3 a4 by blast
  have e3: "read_new_lines dir_partial app_tracking =
              ([strip music_head],
               app_tracking\<lparr>last_position := length ([] @ music_head),
                              last_line := Some (strip music_head)\<rparr>)"
    using line_assembly [of _ _ _ _ dir_partial journal1 app_tracking "[]" music_head]
      d1 d2 d2' d3 d4 d6
    by blast
  have g1: "fst (tail_lines lib0 journal1 (snapshots [] ?c1) tracker_tracking) = [prospect_line]"
    using e1 a5 by simp
  have g2: "tracker_last_line (snd (tail_lines lib0 journal1 (snapshots [] ?c1) tracker_tracking)) = []"
    using e1 by blast
  have g3: "concat (map (\<lambda>l. l @ [LF])
              (fst (tail_lines lib0 journal1 (snapshots [] ?c2) tracker_tracking)))
            = music_head @ music_tail @ [LF]"
    using e2 b4 by simp
  have g4: "read_new_lines dir_partial app_tracking =
              ([music_head], app_tracking\<lparr>last_position := length music_head,
                                            last_line := Some music_head\<rparr>)"
    using e3 d5 by simp
  show ?thesis
    using a0 a1 a1' a2 g1 g2 b1 b1' b2 g3 d1 d2 d2' g4 by blast
qed

text \<open>
  In app.py a line written in two parts is returned as two lines. In EDAT.py a text
  with a CR that no LF follows gives one line when the cut falls after the CR, and two
  lines when read at once. In EDAT.py a line with a character of two bytes loses that
  character when a read ends between the two bytes, and keeps it when read at once.
\<close>

theorem line_assembly_counterexample:
  "fst (read_new_lines dir_partial app_tracking) = [music_head]
   \<and> fst (read_new_lines dir_whole (snd (read_new_lines dir_partial app_tracking))) = [music_tail]
   \<and> fst (tail_lines lib0 journal1 (snapshots [] [''a'' @ [CR], ''b'' @ [LF]]) tracker_tracking)
       = [''ab'']
   \<and> fst (tail_lines lib0 journal1 (snapshots [] [''a'' @ [CR] @ ''b'' @ [LF]]) tracker_tracking)
       = [''a'', ''b'']
   \<and> fst (tail_lines lib_accent journal1 (snapshots [] [accent_head, accent_tail])
            tracker_tracking) = [''Caf'']
   \<and> fst (tail_lines lib_accent journal1 (snapshots [] [accent_head @ accent_tail])
            tracker_tracking) = [''Caf'' @ [CHR 0xE9]]"
  by code_simp

subsection \<open>The fallback parsers of app.py\<close>






end
